theory Spec2Isabelle
  imports Main "HOL-Library.Word"
begin

unbundle bit_operations_syntax

section \<open>The wrapped library\<close>

text \<open>
  The repository is a C++ binding over the C API of a native multimedia library. The
  library itself is not part of the repository: every wrapper method calls into it and
  hands the result on. The model keeps the library abstract. A native handle
  (\<^verbatim>\<open>SDL_Surface*\<close>, \<^verbatim>\<open>SDL_Window*\<close>, \<^verbatim>\<open>SDL_Renderer*\<close>, \<^verbatim>\<open>SDL_Texture*\<close>) is an address,
  \<^verbatim>\<open>NULL\<close> is address 0. C's \<^verbatim>\<open>int\<close> and \<^verbatim>\<open>Uint32\<close> are 32-bit words, \<^verbatim>\<open>Uint8\<close> is an 8-bit
  word, and a \<^verbatim>\<open>float\<close> is carried as its 32-bit pattern: the wrapper only forwards floats.
\<close>

type_synonym ptr = nat
type_synonym cint = "32 word"
type_synonym Uint32 = "32 word"
type_synonym Uint8 = "8 word"
type_synonym cfloat = "32 word"

abbreviation NULL :: ptr where
  "NULL \<equiv> 0"

datatype SDL_bool = SDL_FALSE | SDL_TRUE

text \<open>The conversions C++ applies to an \<^verbatim>\<open>SDL_bool\<close>: to \<^verbatim>\<open>bool\<close> (non-zero is true) and
  to \<^verbatim>\<open>int\<close> (the enumerator's value).\<close>

fun bool_of_SDL_bool :: "SDL_bool \<Rightarrow> bool" where
  "bool_of_SDL_bool SDL_FALSE = False"
| "bool_of_SDL_bool SDL_TRUE = True"

fun int_of_SDL_bool :: "SDL_bool \<Rightarrow> cint" where
  "int_of_SDL_bool SDL_FALSE = 0"
| "int_of_SDL_bool SDL_TRUE = 1"

text \<open>
  \<^verbatim>\<open>rect.hpp\<close> is not among the sources. Of \<^verbatim>\<open>Point\<close> the modelled methods use the members
  \<^verbatim>\<open>w\<close> and \<^verbatim>\<open>h\<close>, of \<^verbatim>\<open>FPoint\<close> the members \<^verbatim>\<open>x\<close> and \<^verbatim>\<open>y\<close>, of \<^verbatim>\<open>Rect\<close> the native
  \<^verbatim>\<open>SDL_Rect\<close> it wraps (\<^verbatim>\<open>x\<close>, \<^verbatim>\<open>y\<close>, \<^verbatim>\<open>w\<close>, \<^verbatim>\<open>h\<close>); each is the tuple of those members.
\<close>

type_synonym Point = "cint \<times> cint"
type_synonym FPoint = "cfloat \<times> cfloat"
type_synonym SDL_Rect = "cint \<times> cint \<times> cint \<times> cint"
type_synonym Rect = SDL_Rect

text \<open>The functions of the library that the modelled methods call.\<close>

datatype native =
    SDL_FreeSurface | SDL_DestroyWindow | SDL_DestroyRenderer | SDL_DestroyTexture
  | SDL_LockSurface | SDL_UnlockSurface | SDL_SaveBMP_RW | SDL_SetSurfaceRLE
  | SDL_SetColorKey | SDL_HasColorKey | SDL_SetSurfaceAlphaMod
  | SDL_DuplicateSurface | SDL_ConvertSurfaceFormat
  | SDL_CreateWindow | SDL_GetWindowSize | SDL_GetWindowSurface | SDL_GetWindowFlags
  | SDL_GetWindowGrab | SDL_SetWindowOpacity | SDL_SetWindowInputFocus
  | SDL_UpdateWindowSurface | SDL_SetWindowBrightness | SDL_SetWindowFullscreen
  | SDL_ShowWindow
  | SDL_CreateRenderer | SDL_RenderSetScale | SDL_RenderGetScale | SDL_SetRenderDrawColor
  | SDL_GetRenderDrawColor | SDL_SetRenderDrawBlendMode | SDL_GetRenderDrawBlendMode
  | SDL_RenderDrawLine | SDL_RenderDrawLineF | SDL_RenderDrawLines | SDL_RenderDrawLinesF
  | SDL_RenderDrawPoint | SDL_RenderDrawPointF | SDL_RenderDrawPoints | SDL_RenderDrawPointsF
  | SDL_RenderDrawRectF | SDL_RenderDrawRects | SDL_RenderDrawRectsF
  | SDL_RenderFillRectF | SDL_RenderFillRects | SDL_RenderFillRectsF
  | SDL_GetRenderDriverInfo | SDL_GetRendererInfo | SDL_RenderReadPixels
  | SDL_RenderClear | SDL_RenderFlush | SDL_RenderPresent | SDL_RenderDrawRect
  | SDL_RenderFillRect | SDL_RenderSetViewport | SDL_RenderSetClipRect
  | SDL_RenderSetLogicalSize | SDL_RenderSetIntegerScale | SDL_RenderGetIntegerScale
  | SDL_RenderIsClipEnabled | SDL_RenderTargetSupported | SDL_GetRendererOutputSize
  | SDL_GetNumRenderDrivers | SDL_GetRenderTarget | SDL_SetRenderTarget
  | SDL_LockTextureToSurface | SDL_UnlockTexture | SDL_RenderCopy
  | SDL_SetTextureColorMod | SDL_SetTextureAlphaMod | SDL_SetTextureBlendMode
  | SDL_GetTextureColorMod | SDL_GetTextureAlphaMod
  | SDL_CreateWindowAndRenderer | SDL_GL_GetCurrentWindow
  | SDL_other string

text \<open>\<open>SDL_other name\<close> is any other function of the library, by its name.\<close>

text \<open>An argument of a native call; \<open>R None\<close> is a \<^verbatim>\<open>NULL\<close> rectangle pointer, and a
  \<^verbatim>\<open>double\<close> is carried as its 64-bit pattern.\<close>

datatype arg = P ptr | I cint | U Uint32 | U8 Uint8 | B bool | F cfloat | D "64 word" | S string
  | R "SDL_Rect option"

datatype call = Call native "arg list"

text \<open>
  The state of the library is the history of the calls made into it, oldest first: what a
  call returns may depend on everything done before, and a released handle shows as a
  call of its release function.
\<close>

type_synonym world = "call list"

text \<open>
  What the library answers: for a call made in a given state, the value it returns and
  the values it stores through the pointers it is given. \<open>out_ptr\<close> and \<open>out_ptrs\<close> give
  the contents of a handle slot (\<^verbatim>\<open>SDL_Surface**\<close>) after the call from its contents before:
  the library may leave the slot as it was.
\<close>

record sdl =
  ret_int :: "world \<Rightarrow> call \<Rightarrow> cint"
  ret_bool :: "world \<Rightarrow> call \<Rightarrow> SDL_bool"
  ret_ptr :: "world \<Rightarrow> call \<Rightarrow> ptr"
  out_ints :: "world \<Rightarrow> call \<Rightarrow> cint \<times> cint"
  out_floats :: "world \<Rightarrow> call \<Rightarrow> cfloat \<times> cfloat"
  out_ptr :: "world \<Rightarrow> call \<Rightarrow> ptr \<Rightarrow> ptr"
  out_ptrs :: "world \<Rightarrow> call \<Rightarrow> ptr \<times> ptr \<Rightarrow> ptr \<times> ptr"

definition call_void :: "native \<Rightarrow> arg list \<Rightarrow> world \<Rightarrow> world" where
  "call_void f as \<sigma> = \<sigma> @ [Call f as]"

definition call_int :: "sdl \<Rightarrow> native \<Rightarrow> arg list \<Rightarrow> world \<Rightarrow> cint \<times> world" where
  "call_int L f as \<sigma> = (ret_int L \<sigma> (Call f as), \<sigma> @ [Call f as])"

definition call_bool :: "sdl \<Rightarrow> native \<Rightarrow> arg list \<Rightarrow> world \<Rightarrow> SDL_bool \<times> world" where
  "call_bool L f as \<sigma> = (ret_bool L \<sigma> (Call f as), \<sigma> @ [Call f as])"

definition call_ptr :: "sdl \<Rightarrow> native \<Rightarrow> arg list \<Rightarrow> world \<Rightarrow> ptr \<times> world" where
  "call_ptr L f as \<sigma> = (ret_ptr L \<sigma> (Call f as), \<sigma> @ [Call f as])"

definition call_out_ints :: "sdl \<Rightarrow> native \<Rightarrow> arg list \<Rightarrow> world \<Rightarrow> (cint \<times> cint) \<times> world" where
  "call_out_ints L f as \<sigma> = (out_ints L \<sigma> (Call f as), \<sigma> @ [Call f as])"

definition call_out_floats ::
  "sdl \<Rightarrow> native \<Rightarrow> arg list \<Rightarrow> world \<Rightarrow> (cfloat \<times> cfloat) \<times> world" where
  "call_out_floats L f as \<sigma> = (out_floats L \<sigma> (Call f as), \<sigma> @ [Call f as])"

definition call_int_out_ints ::
  "sdl \<Rightarrow> native \<Rightarrow> arg list \<Rightarrow> world \<Rightarrow> (cint \<times> cint \<times> cint) \<times> world" where
  "call_int_out_ints L f as \<sigma> =
     ((ret_int L \<sigma> (Call f as), out_ints L \<sigma> (Call f as)), \<sigma> @ [Call f as])"

definition call_int_out_ptr ::
  "sdl \<Rightarrow> native \<Rightarrow> arg list \<Rightarrow> ptr \<Rightarrow> world \<Rightarrow> (cint \<times> ptr) \<times> world" where
  "call_int_out_ptr L f as slot \<sigma> =
     ((ret_int L \<sigma> (Call f as), out_ptr L \<sigma> (Call f as) slot), \<sigma> @ [Call f as])"

definition call_int_out_ptrs ::
  "sdl \<Rightarrow> native \<Rightarrow> arg list \<Rightarrow> ptr \<times> ptr \<Rightarrow> world \<Rightarrow> (cint \<times> ptr \<times> ptr) \<times> world" where
  "call_int_out_ptrs L f as slots \<sigma> =
     ((ret_int L \<sigma> (Call f as), out_ptrs L \<sigma> (Call f as) slots), \<sigma> @ [Call f as])"

text \<open>How often a handle has been handed to a release function.\<close>

definition releases :: "native \<Rightarrow> ptr \<Rightarrow> world \<Rightarrow> nat" where
  "releases f p \<sigma> = count_list \<sigma> (Call f [P p])"

section \<open>Methods that return the result of one native call\<close>

text \<open>
  \<^verbatim>\<open>T M(...) { return SDL_f(args...); }\<close> where \<^verbatim>\<open>T\<close>, the return type of \<^verbatim>\<open>SDL_f\<close>, is \<^verbatim>\<open>int\<close>, \<^verbatim>\<open>Uint32\<close>,
  \<^verbatim>\<open>float\<close> or an enumeration: a 32-bit value. Some of the methods with this body are modelled one
  by one below. It is also the body of
  Surface::SetPalette, SaveBMP, GetColorKey, SetColorMod, GetColorMod, GetAlphaMod, SetBlendMode,
  GetBlendMode, Fill, FillRect and FillRects (both overloads each), BlitSurface, UpperBlit,
  LowerBlit, SoftStretch, BlitScaled, UpperBlitScaled and LowerBlitScaled; of ConvertPixels,
  YUV::GetConversionMode and YUV::GetConversionModeForResolution;
  of GetNumVideoDrivers and VideoInit (both overloads); of Display::GetNumVideoDisplays,
  GetBounds, GetUsableBounds, GetDPI, GetOrientation, GetNumModes, GetMode, GetDesktopMode and
  GetCurrentMode; of Window::GetPixelFormat(), GetID(), GetBrightness(), GetOpacity,
  SetGammaRamp, GetGammaRamp and SetHitTest; of SetWindowModalFor; of GL::LoadLibrary,
  SetAttribute, GetAttribute, MakeCurrent, SetSwapInterval, GetSwapInterval, BindTexture and
  UnbindTexture; of SetError; and of Texture::LockRect, Lock, UpdateRect, Update, UpdateYUVRect,
  UpdateYUV, Copy, Copy_Fill, CopyF, CopyF_Fill, CopyEx, CopyEx_Fill, CopyExF and CopyExF_Fill
  (every overload but the two modelled below), QueryFormat, QueryAccess, QuerySize, Query (both
  overloads), SetBlendMode, GetBlendMode, SetScaleMode and GetScaleMode. \<open>as\<close> are the arguments the method passes; Surface::SaveBMP and the overloads of
  Fill, FillRect and FillRects that take a colour by components compute one of them by a call
  of their own first. What the library stores through pointer arguments is not modelled.
\<close>

definition returns_result :: "sdl \<Rightarrow> native \<Rightarrow> arg list \<Rightarrow> world \<Rightarrow> cint \<times> world" where
  "returns_result L f as \<sigma> = call_int L f as \<sigma>"

text \<open>
  \<^verbatim>\<open>bool M(...) { return SDL_f(args...); }\<close> where \<^verbatim>\<open>SDL_f\<close> returns an \<^verbatim>\<open>SDL_bool\<close>: besides the
  methods modelled one by one below, the body of Surface::SetClipRect, Surface::DisableClip,
  IsScreenSaverEnabled and GL::ExtensionSupported.
\<close>

definition returns_bool :: "sdl \<Rightarrow> native \<Rightarrow> arg list \<Rightarrow> world \<Rightarrow> bool \<times> world" where
  "returns_bool L f as \<sigma> =
     (let (b, \<sigma>') = call_bool L f as \<sigma> in (bool_of_SDL_bool b, \<sigma>'))"

text \<open>
  \<^verbatim>\<open>T* M(...) { return SDL_f(args...); }\<close> where \<^verbatim>\<open>SDL_f\<close> returns the pointer type \<^verbatim>\<open>T*\<close>
  (\<^verbatim>\<open>const char*\<close>, \<^verbatim>\<open>void*\<close>, \<^verbatim>\<open>Mode*\<close>, or \<^verbatim>\<open>Context\<close>, which is \<^verbatim>\<open>void*\<close>): the body of
  GetCurrentVideoDriver, GetError, Display::GetName, Display::GetClosestMode, Window::SetData,
  Window::GetData(name), GL::GetProcAddress, GL::CreateContext, GL::GetCurrentContext,
  Renderer::GetMetalLayer and Renderer::GetMetalCommandEncoder.
\<close>

definition returns_pointer :: "sdl \<Rightarrow> native \<Rightarrow> arg list \<Rightarrow> world \<Rightarrow> ptr \<times> world" where
  "returns_pointer L f as \<sigma> = call_ptr L f as \<sigma>"

section \<open>Surface (surface.hpp)\<close>

record Surface =
  surface :: ptr
  freeSurface :: bool

text \<open>\<^verbatim>\<open>Surface(SDL_Surface* surface = NULL, bool free = false)\<close>\<close>

definition Surface_ctor :: "ptr \<Rightarrow> bool \<Rightarrow> Surface" where
  "Surface_ctor p free = \<lparr>surface = p, freeSurface = (free \<and> p \<noteq> NULL)\<rparr>"

text \<open>\<^verbatim>\<open>~Surface() { if(freeSurface) SDL_FreeSurface(surface); }\<close>\<close>

definition Surface_dtor :: "Surface \<Rightarrow> world \<Rightarrow> world" where
  "Surface_dtor s \<sigma> = (if freeSurface s then call_void SDL_FreeSurface [P (surface s)] \<sigma> else \<sigma>)"

definition Surface_Lock :: "sdl \<Rightarrow> Surface \<Rightarrow> world \<Rightarrow> cint \<times> world" where
  "Surface_Lock L s \<sigma> = call_int L SDL_LockSurface [P (surface s)] \<sigma>"

definition Surface_Unlock :: "Surface \<Rightarrow> world \<Rightarrow> world" where
  "Surface_Unlock s \<sigma> = call_void SDL_UnlockSurface [P (surface s)] \<sigma>"

definition Surface_SaveBMP_RW :: "sdl \<Rightarrow> Surface \<Rightarrow> ptr \<Rightarrow> bool \<Rightarrow> world \<Rightarrow> cint \<times> world" where
  "Surface_SaveBMP_RW L s dst freedst \<sigma> =
     call_int L SDL_SaveBMP_RW [P (surface s), P dst, B freedst] \<sigma>"

definition Surface_SetRLE :: "sdl \<Rightarrow> Surface \<Rightarrow> cint \<Rightarrow> world \<Rightarrow> cint \<times> world" where
  "Surface_SetRLE L s flag \<sigma> = call_int L SDL_SetSurfaceRLE [P (surface s), I flag] \<sigma>"

definition Surface_SetColorKey :: "sdl \<Rightarrow> Surface \<Rightarrow> cint \<Rightarrow> Uint32 \<Rightarrow> world \<Rightarrow> cint \<times> world" where
  "Surface_SetColorKey L s flag key \<sigma> =
     call_int L SDL_SetColorKey [P (surface s), I flag, U key] \<sigma>"

definition Surface_SetAlphaMod :: "sdl \<Rightarrow> Surface \<Rightarrow> Uint8 \<Rightarrow> world \<Rightarrow> cint \<times> world" where
  "Surface_SetAlphaMod L s alpha \<sigma> = call_int L SDL_SetSurfaceAlphaMod [P (surface s), U8 alpha] \<sigma>"

text \<open>\<^verbatim>\<open>bool HasColorKey() { return SDL_HasColorKey(surface); }\<close>\<close>

definition Surface_HasColorKey :: "sdl \<Rightarrow> Surface \<Rightarrow> world \<Rightarrow> bool \<times> world" where
  "Surface_HasColorKey L s \<sigma> =
     (let (b, \<sigma>') = call_bool L SDL_HasColorKey [P (surface s)] \<sigma> in (bool_of_SDL_bool b, \<sigma>'))"

text \<open>
  \<^verbatim>\<open>Surface newSurface = Surface(SDL_DuplicateSurface(surface));\<close>
  \<^verbatim>\<open>newSurface.freeSurface = true; return newSurface;\<close>
  The local is the object the caller receives (the copy is elided).
\<close>

definition Surface_Duplicate :: "sdl \<Rightarrow> Surface \<Rightarrow> world \<Rightarrow> Surface \<times> world" where
  "Surface_Duplicate L s \<sigma> =
     (let (p, \<sigma>') = call_ptr L SDL_DuplicateSurface [P (surface s)] \<sigma>;
          newSurface = Surface_ctor p False;
          newSurface = newSurface\<lparr>freeSurface := True\<rparr>
      in (newSurface, \<sigma>'))"

text \<open>
  \<^verbatim>\<open>Surface newSurface = Surface(SDL_ConvertSurfaceFormat(surface, pixel_format, flags));\<close>
  \<^verbatim>\<open>newSurface.freeSurface = newSurface.surface != NULL; return newSurface;\<close>
\<close>

definition Surface_ConvertSurfaceFormat ::
  "sdl \<Rightarrow> Surface \<Rightarrow> Uint32 \<Rightarrow> Uint32 \<Rightarrow> world \<Rightarrow> Surface \<times> world" where
  "Surface_ConvertSurfaceFormat L s pixel_format flags \<sigma> =
     (let (p, \<sigma>') = call_ptr L SDL_ConvertSurfaceFormat [P (surface s), U pixel_format, U flags] \<sigma>;
          newSurface = Surface_ctor p False;
          newSurface = newSurface\<lparr>freeSurface := (surface newSurface \<noteq> NULL)\<rparr>
      in (newSurface, \<sigma>'))"

section \<open>Window (video.hpp)\<close>

text \<open>
  \<^verbatim>\<open>SDL_Window* window = NULL; bool freeWindow = false; int error;\<close>
  \<^verbatim>\<open>error\<close> has no initialiser: a constructor leaves it indeterminate, and the model takes
  the value it happens to hold as the constructor's last argument.
\<close>

record Window =
  window :: ptr
  freeWindow :: bool
  error :: cint

text \<open>\<^verbatim>\<open>Window(SDL_Window* window = NULL, bool free = false) : window(window), freeWindow(free) {}\<close>\<close>

definition Window_ctor :: "ptr \<Rightarrow> bool \<Rightarrow> cint \<Rightarrow> Window" where
  "Window_ctor p free e = \<lparr>window = p, freeWindow = free, error = e\<rparr>"

text \<open>\<^verbatim>\<open>~Window() { if(freeWindow) SDL_DestroyWindow(window); }\<close>\<close>

definition Window_dtor :: "Window \<Rightarrow> world \<Rightarrow> world" where
  "Window_dtor wnd \<sigma> = (if freeWindow wnd then call_void SDL_DestroyWindow [P (window wnd)] \<sigma> else \<sigma>)"

text \<open>
  \<^verbatim>\<open>Window(const Window& wnd) : Window(wnd.window, false) {}\<close>
  The result is the new object and the source as the constructor leaves it.
\<close>

definition Window_copy :: "Window \<Rightarrow> cint \<Rightarrow> Window \<times> Window" where
  "Window_copy wnd e = (Window_ctor (window wnd) False e, wnd)"

text \<open>\<^verbatim>\<open>Window(Window&& wnd) : Window(wnd.window, wnd.freeWindow)\<close>
  \<^verbatim>\<open>{ wnd.window = NULL;  wnd.freeWindow = false; }\<close>\<close>

definition Window_move :: "Window \<Rightarrow> cint \<Rightarrow> Window \<times> Window" where
  "Window_move wnd e =
     (Window_ctor (window wnd) (freeWindow wnd) e, wnd\<lparr>window := NULL, freeWindow := False\<rparr>)"

text \<open>
  \<^verbatim>\<open>Window& operator=(Window that)\<close>
  \<^verbatim>\<open>{ std::swap(window, that.window); std::swap(freeWindow, that.freeWindow); return *this; }\<close>
  \<open>that\<close> is the by-value parameter; it is destroyed when the assignment completes, so its
  destructor is part of the operation.
\<close>

definition Window_assign :: "Window \<Rightarrow> Window \<Rightarrow> world \<Rightarrow> Window \<times> world" where
  "Window_assign this that \<sigma> =
     (let this' = this\<lparr>window := window that, freeWindow := freeWindow that\<rparr>;
          that' = that\<lparr>window := window this, freeWindow := freeWindow this\<rparr>
      in (this', Window_dtor that' \<sigma>))"

text \<open>\<^verbatim>\<open>Window(std::string title, const Rect& shape, Uint32 flags)\<close>
  \<^verbatim>\<open>: Window(SDL_CreateWindow(title.c_str(), shape.x, shape.y, shape.w, shape.h, flags), true) {}\<close>\<close>

definition Window_create :: "sdl \<Rightarrow> string \<Rightarrow> Rect \<Rightarrow> Uint32 \<Rightarrow> cint \<Rightarrow> world \<Rightarrow> Window \<times> world" where
  "Window_create L title shape flags e \<sigma> =
     (case shape of (sx, sy, sw, sh) \<Rightarrow>
        let (p, \<sigma>') = call_ptr L SDL_CreateWindow [S title, I sx, I sy, I sw, I sh, U flags] \<sigma>
        in (Window_ctor p True e, \<sigma>'))"

text \<open>\<^verbatim>\<open>Point GetSize() { Point returnVal;\<close>
  \<^verbatim>\<open>SDL_GetWindowSize(window, &returnVal.w, &returnVal.h); return returnVal; }\<close>\<close>

definition Window_GetSize :: "sdl \<Rightarrow> Window \<Rightarrow> world \<Rightarrow> Point \<times> world" where
  "Window_GetSize L wnd \<sigma> = call_out_ints L SDL_GetWindowSize [P (window wnd)] \<sigma>"

text \<open>\<^verbatim>\<open>Window& GetSize(Point& size) { SDL_GetWindowSize(window, &size.w, &size.h); return *this; }\<close>
  A method with a reference parameter returns the object, the parameter as the method
  leaves it, and the library's state.\<close>

definition Window_GetSize_ref :: "sdl \<Rightarrow> Window \<Rightarrow> Point \<Rightarrow> world \<Rightarrow> Window \<times> Point \<times> world" where
  "Window_GetSize_ref L wnd size0 \<sigma> =
     (let (size', \<sigma>') = call_out_ints L SDL_GetWindowSize [P (window wnd)] \<sigma> in (wnd, size', \<sigma>'))"

text \<open>\<^verbatim>\<open>Uint32 GetFlags() { return SDL_GetWindowFlags(window); }\<close> and
  \<^verbatim>\<open>Window& GetFlags(Uint32& flags) { flags = SDL_GetWindowFlags(window); return *this; }\<close>\<close>

definition Window_GetFlags :: "sdl \<Rightarrow> Window \<Rightarrow> world \<Rightarrow> Uint32 \<times> world" where
  "Window_GetFlags L wnd \<sigma> = call_int L SDL_GetWindowFlags [P (window wnd)] \<sigma>"

definition Window_GetFlags_ref :: "sdl \<Rightarrow> Window \<Rightarrow> Uint32 \<Rightarrow> world \<Rightarrow> Window \<times> Uint32 \<times> world" where
  "Window_GetFlags_ref L wnd flags \<sigma> =
     (let (flags', \<sigma>') = call_int L SDL_GetWindowFlags [P (window wnd)] \<sigma> in (wnd, flags', \<sigma>'))"

text \<open>\<^verbatim>\<open>bool GetGrab() { return SDL_GetWindowGrab(window) == SDL_TRUE; }\<close> and
  \<^verbatim>\<open>Window& GetGrab(bool& grab) { grab = SDL_GetWindowGrab(window) == SDL_TRUE; return *this; }\<close>\<close>

definition Window_GetGrab :: "sdl \<Rightarrow> Window \<Rightarrow> world \<Rightarrow> bool \<times> world" where
  "Window_GetGrab L wnd \<sigma> =
     (let (b, \<sigma>') = call_bool L SDL_GetWindowGrab [P (window wnd)] \<sigma> in (b = SDL_TRUE, \<sigma>'))"

definition Window_GetGrab_ref :: "sdl \<Rightarrow> Window \<Rightarrow> bool \<Rightarrow> world \<Rightarrow> Window \<times> bool \<times> world" where
  "Window_GetGrab_ref L wnd grab \<sigma> =
     (let (b, \<sigma>') = call_bool L SDL_GetWindowGrab [P (window wnd)] \<sigma> in (wnd, b = SDL_TRUE, \<sigma>'))"

text \<open>\<^verbatim>\<open>Surface GetSurface() { return SDL_GetWindowSurface(window); }\<close>
  The returned pointer converts to a \<^verbatim>\<open>Surface\<close> through \<^verbatim>\<open>Surface(surface, false)\<close>.\<close>

definition Window_GetSurface :: "sdl \<Rightarrow> Window \<Rightarrow> world \<Rightarrow> Surface \<times> world" where
  "Window_GetSurface L wnd \<sigma> =
     (let (p, \<sigma>') = call_ptr L SDL_GetWindowSurface [P (window wnd)] \<sigma> in (Surface_ctor p False, \<sigma>'))"

text \<open>\<^verbatim>\<open>Window& GetSurface(Surface& surface) { surface.~Surface();\<close>
  \<^verbatim>\<open>surface.surface = SDL_GetWindowSurface(window); surface.freeSurface = false; return *this; }\<close>\<close>

definition Window_GetSurface_ref :: "sdl \<Rightarrow> Window \<Rightarrow> Surface \<Rightarrow> world \<Rightarrow> Window \<times> Surface \<times> world" where
  "Window_GetSurface_ref L wnd s \<sigma> =
     (let \<sigma>1 = Surface_dtor s \<sigma>;
          (p, \<sigma>2) = call_ptr L SDL_GetWindowSurface [P (window wnd)] \<sigma>1;
          s = s\<lparr>surface := p\<rparr>;
          s = s\<lparr>freeSurface := False\<rparr>
      in (wnd, s, \<sigma>2))"

definition Window_SetOpacity :: "sdl \<Rightarrow> Window \<Rightarrow> cfloat \<Rightarrow> world \<Rightarrow> cint \<times> world" where
  "Window_SetOpacity L wnd opacity \<sigma> = call_int L SDL_SetWindowOpacity [P (window wnd), F opacity] \<sigma>"

definition Window_SetInputFocus :: "sdl \<Rightarrow> Window \<Rightarrow> world \<Rightarrow> cint \<times> world" where
  "Window_SetInputFocus L wnd \<sigma> = call_int L SDL_SetWindowInputFocus [P (window wnd)] \<sigma>"

text \<open>\<^verbatim>\<open>Window& UpdateSurface() { error = SDL_UpdateWindowSurface(window); return *this; }\<close>\<close>

definition Window_UpdateSurface :: "sdl \<Rightarrow> Window \<Rightarrow> world \<Rightarrow> Window \<times> world" where
  "Window_UpdateSurface L wnd \<sigma> =
     (let (rc, \<sigma>') = call_int L SDL_UpdateWindowSurface [P (window wnd)] \<sigma>
      in (wnd\<lparr>error := rc\<rparr>, \<sigma>'))"

text \<open>\<^verbatim>\<open>Window& SetBrightness(float brightness)\<close>
  \<^verbatim>\<open>{ error = SDL_SetWindowBrightness(window, brightness); return *this; }\<close>\<close>

definition Window_SetBrightness :: "sdl \<Rightarrow> Window \<Rightarrow> cfloat \<Rightarrow> world \<Rightarrow> Window \<times> world" where
  "Window_SetBrightness L wnd brightness \<sigma> =
     (let (rc, \<sigma>') = call_int L SDL_SetWindowBrightness [P (window wnd), F brightness] \<sigma>
      in (wnd\<lparr>error := rc\<rparr>, \<sigma>'))"

text \<open>\<^verbatim>\<open>Window& SetFullscreen(Uint32 flags) { SDL_SetWindowFullscreen(window, flags); return *this; }\<close>
  The native return code is dropped.\<close>

definition Window_SetFullscreen :: "sdl \<Rightarrow> Window \<Rightarrow> Uint32 \<Rightarrow> world \<Rightarrow> Window \<times> world" where
  "Window_SetFullscreen L wnd flags \<sigma> =
     (let (rc, \<sigma>') = call_int L SDL_SetWindowFullscreen [P (window wnd), U flags] \<sigma> in (wnd, \<sigma>'))"

text \<open>\<^verbatim>\<open>Window& Show() { SDL_ShowWindow(window); return *this; }\<close>\<close>

definition Window_Show :: "Window \<Rightarrow> world \<Rightarrow> Window \<times> world" where
  "Window_Show wnd \<sigma> = (wnd, call_void SDL_ShowWindow [P (window wnd)] \<sigma>)"

text \<open>
  \<^verbatim>\<open>Window& M(...) { error = SDL_f(window, args...); return *this; }\<close>
  The body of the eight chaining methods of Window that keep the code: UpdateSurface and
  SetBrightness, modelled above, and SetDisplayMode, SetDefaultDisplayMode, GetDisplayMode,
  GetBordersSize and UpdateSurfaceRects (both overloads). What the library stores through their
  pointer arguments is not modelled.
\<close>

definition Window_assigned :: "sdl \<Rightarrow> Window \<Rightarrow> native \<Rightarrow> arg list \<Rightarrow> world \<Rightarrow> Window \<times> world" where
  "Window_assigned L wnd f as \<sigma> =
     (let (rc, \<sigma>') = call_int L f (P (window wnd) # as) \<sigma> in (wnd\<lparr>error := rc\<rparr>, \<sigma>'))"

text \<open>\<^verbatim>\<open>static Window GetCurrentWindow() { return SDL_GL_GetCurrentWindow(); }\<close> (namespace GL)
  The returned pointer converts to a \<^verbatim>\<open>Window\<close> through \<^verbatim>\<open>Window(window, false)\<close>.\<close>

definition GL_GetCurrentWindow :: "sdl \<Rightarrow> cint \<Rightarrow> world \<Rightarrow> Window \<times> world" where
  "GL_GetCurrentWindow L e \<sigma> =
     (let (p, \<sigma>') = call_ptr L SDL_GL_GetCurrentWindow [] \<sigma> in (Window_ctor p False e, \<sigma>'))"

section \<open>Renderer and Texture (render.cpp)\<close>

text \<open>
  \<^verbatim>\<open>render.hpp\<close>, which declares both classes, is not among the sources. \<^verbatim>\<open>render.cpp\<close> uses the
  members \<^verbatim>\<open>renderer\<close>, \<^verbatim>\<open>freeRenderer\<close> and \<^verbatim>\<open>error\<close> of \<^verbatim>\<open>Renderer\<close> and the members
  \<^verbatim>\<open>renderer\<close>, \<^verbatim>\<open>texture\<close> and \<^verbatim>\<open>freeTexture\<close> of \<^verbatim>\<open>Texture\<close>. \<^verbatim>\<open>error\<close> is combined with
  \<^verbatim>\<open>int\<close> return codes by \<^verbatim>\<open>|=\<close> and is an \<^verbatim>\<open>int\<close> like \<^verbatim>\<open>Window::error\<close>. No constructor in
  \<^verbatim>\<open>render.cpp\<close> initialises it; the model takes the value it starts with as the
  constructor's last argument.
\<close>

record Renderer =
  renderer :: ptr
  freeRenderer :: bool
  error :: cint

text \<open>The \<^verbatim>\<open>renderer\<close> member of a \<^verbatim>\<open>Texture\<close> is the \<^verbatim>\<open>Renderer\<close> its constructor was given;
  the methods read its handle as \<^verbatim>\<open>renderer.renderer\<close>.\<close>

record Texture =
  renderer :: Renderer
  texture :: ptr
  freeTexture :: bool

text \<open>\<^verbatim>\<open>Renderer::Renderer(SDL_Renderer* renderer, bool free)\<close>
  \<^verbatim>\<open>: renderer(renderer), freeRenderer(free && renderer != NULL) {}\<close>\<close>

definition Renderer_ctor :: "ptr \<Rightarrow> bool \<Rightarrow> cint \<Rightarrow> Renderer" where
  "Renderer_ctor p free e = \<lparr>Renderer.renderer = p, freeRenderer = (free \<and> p \<noteq> NULL), error = e\<rparr>"

text \<open>\<^verbatim>\<open>Renderer::~Renderer() { if (freeRenderer) SDL_DestroyRenderer(renderer); }\<close>\<close>

definition Renderer_dtor :: "Renderer \<Rightarrow> world \<Rightarrow> world" where
  "Renderer_dtor r \<sigma> =
     (if freeRenderer r then call_void SDL_DestroyRenderer [P (Renderer.renderer r)] \<sigma> else \<sigma>)"

text \<open>\<^verbatim>\<open>Renderer::Renderer(const Renderer& r) : renderer(r.renderer) { }\<close>
  The constructor initialises the handle only: \<^verbatim>\<open>freeRenderer\<close> takes its default member
  initialiser. That initialiser is part of the declaration in \<^verbatim>\<open>render.hpp\<close>, which is not among
  the sources, so it is the parameter \<open>free0\<close> of the model (the declarations that are among the
  sources read \<^verbatim>\<open>bool freeSurface = false;\<close> and \<^verbatim>\<open>bool freeWindow = false;\<close>).\<close>

definition Renderer_copy :: "bool \<Rightarrow> Renderer \<Rightarrow> cint \<Rightarrow> Renderer \<times> Renderer" where
  "Renderer_copy free0 r e =
     (\<lparr>Renderer.renderer = Renderer.renderer r, freeRenderer = free0, error = e\<rparr>, r)"

text \<open>\<^verbatim>\<open>Renderer::Renderer(Renderer&& r) : renderer(r.renderer), freeRenderer(r.freeRenderer)\<close>
  \<^verbatim>\<open>{ r.freeRenderer = false; }\<close>\<close>

definition Renderer_move :: "Renderer \<Rightarrow> cint \<Rightarrow> Renderer \<times> Renderer" where
  "Renderer_move r e =
     (\<lparr>Renderer.renderer = Renderer.renderer r, freeRenderer = freeRenderer r, error = e\<rparr>,
      r\<lparr>freeRenderer := False\<rparr>)"

text \<open>\<^verbatim>\<open>Renderer& Renderer::operator=(Renderer that)\<close>
  \<^verbatim>\<open>{ std::swap(renderer, that.renderer); std::swap(freeRenderer, that.freeRenderer); return *this; }\<close>\<close>

definition Renderer_assign :: "Renderer \<Rightarrow> Renderer \<Rightarrow> world \<Rightarrow> Renderer \<times> world" where
  "Renderer_assign this that \<sigma> =
     (let this' = this\<lparr>Renderer.renderer := Renderer.renderer that, freeRenderer := freeRenderer that\<rparr>;
          that' = that\<lparr>Renderer.renderer := Renderer.renderer this, freeRenderer := freeRenderer this\<rparr>
      in (this', Renderer_dtor that' \<sigma>))"

text \<open>
  \<^verbatim>\<open>std::swap(a, b)\<close> on two Renderer objects, as \<^verbatim>\<open>Texture::operator=\<close> calls it on the
  \<^verbatim>\<open>renderer\<close> members: \<^verbatim>\<open>Renderer tmp(std::move(a)); a = std::move(b); b = std::move(tmp);\<close>
  through the move constructor and \<^verbatim>\<open>operator=\<close> above. Each by-value parameter and \<^verbatim>\<open>tmp\<close> is
  destroyed in turn; \<open>e\<close> is the \<^verbatim>\<open>error\<close> the temporaries start with.
\<close>

definition Renderer_swap ::
  "Renderer \<Rightarrow> Renderer \<Rightarrow> cint \<Rightarrow> world \<Rightarrow> (Renderer \<times> Renderer) \<times> world" where
  "Renderer_swap a b e \<sigma> =
     (let (tmp, a) = Renderer_move a e;
          (that, b) = Renderer_move b e;
          (a, \<sigma>) = Renderer_assign a that \<sigma>;
          (that, tmp) = Renderer_move tmp e;
          (b, \<sigma>) = Renderer_assign b that \<sigma>;
          \<sigma> = Renderer_dtor tmp \<sigma>
      in ((a, b), \<sigma>))"

text \<open>\<^verbatim>\<open>Renderer::Renderer(Window& window, Uint32 flags, int index)\<close>
  \<^verbatim>\<open>: Renderer(SDL_CreateRenderer(window.window, index, flags), true) {}\<close>\<close>

definition Renderer_create ::
  "sdl \<Rightarrow> Window \<Rightarrow> Uint32 \<Rightarrow> cint \<Rightarrow> cint \<Rightarrow> world \<Rightarrow> Renderer \<times> world" where
  "Renderer_create L wnd flags index e \<sigma> =
     (let (p, \<sigma>') = call_ptr L SDL_CreateRenderer [P (window wnd), I index, U flags] \<sigma>
      in (Renderer_ctor p True e, \<sigma>'))"

text \<open>\<^verbatim>\<open>Renderer& Renderer::FlushError() { error = 0; return *this; }\<close>\<close>

definition Renderer_FlushError :: "Renderer \<Rightarrow> Renderer" where
  "Renderer_FlushError r = r\<lparr>Renderer.error := 0\<rparr>"

text \<open>\<^verbatim>\<open>Renderer& Renderer::SetScale(const FPoint& scale)\<close>
  \<^verbatim>\<open>{ error |= SDL_RenderSetScale(renderer, scale.x, scale.y); return *this; }\<close>\<close>

definition Renderer_SetScale_FPoint :: "sdl \<Rightarrow> Renderer \<Rightarrow> FPoint \<Rightarrow> world \<Rightarrow> Renderer \<times> world" where
  "Renderer_SetScale_FPoint L r scale \<sigma> =
     (let (rc, \<sigma>') = call_int L SDL_RenderSetScale [P (Renderer.renderer r), F (fst scale), F (snd scale)] \<sigma>
      in (r\<lparr>Renderer.error := Renderer.error r OR rc\<rparr>, \<sigma>'))"

text \<open>\<^verbatim>\<open>Renderer& Renderer::SetScale(float scaleX, float scaleY)\<close>
  \<^verbatim>\<open>{ error |= SDL_RenderSetScale(renderer, scaleX, scaleY); return *this; }\<close>\<close>

definition Renderer_SetScale :: "sdl \<Rightarrow> Renderer \<Rightarrow> cfloat \<Rightarrow> cfloat \<Rightarrow> world \<Rightarrow> Renderer \<times> world" where
  "Renderer_SetScale L r scaleX scaleY \<sigma> =
     (let (rc, \<sigma>') = call_int L SDL_RenderSetScale [P (Renderer.renderer r), F scaleX, F scaleY] \<sigma>
      in (r\<lparr>Renderer.error := Renderer.error r OR rc\<rparr>, \<sigma>'))"

text \<open>\<^verbatim>\<open>FPoint Renderer::GetScale() { FPoint returnVal;\<close>
  \<^verbatim>\<open>SDL_RenderGetScale(renderer, &returnVal.x, &returnVal.y); return returnVal; }\<close>\<close>

definition Renderer_GetScale :: "sdl \<Rightarrow> Renderer \<Rightarrow> world \<Rightarrow> FPoint \<times> world" where
  "Renderer_GetScale L r \<sigma> = call_out_floats L SDL_RenderGetScale [P (Renderer.renderer r)] \<sigma>"

text \<open>\<^verbatim>\<open>Renderer& Renderer::GetScale(FPoint& scale)\<close>
  \<^verbatim>\<open>{ SDL_RenderGetScale(renderer, &scale.x, &scale.y); return *this; }\<close>\<close>

definition Renderer_GetScale_ref ::
  "sdl \<Rightarrow> Renderer \<Rightarrow> FPoint \<Rightarrow> world \<Rightarrow> Renderer \<times> FPoint \<times> world" where
  "Renderer_GetScale_ref L r scale \<sigma> =
     (let (scale', \<sigma>') = call_out_floats L SDL_RenderGetScale [P (Renderer.renderer r)] \<sigma>
      in (r, scale', \<sigma>'))"

text \<open>\<^verbatim>\<open>Renderer& Renderer::GetScale(float& scaleX, float& scaleY)\<close>
  \<^verbatim>\<open>{ SDL_RenderGetScale(renderer, &scaleX, &scaleY); return *this; }\<close>\<close>

definition Renderer_GetScale_refs ::
  "sdl \<Rightarrow> Renderer \<Rightarrow> cfloat \<Rightarrow> cfloat \<Rightarrow> world \<Rightarrow> Renderer \<times> (cfloat \<times> cfloat) \<times> world" where
  "Renderer_GetScale_refs L r scaleX scaleY \<sigma> =
     (let ((scaleX', scaleY'), \<sigma>') = call_out_floats L SDL_RenderGetScale [P (Renderer.renderer r)] \<sigma>
      in (r, (scaleX', scaleY'), \<sigma>'))"

text \<open>\<^verbatim>\<open>Renderer& Renderer::SetDrawColor(Uint8 r, Uint8 g, Uint8 b, Uint8 a)\<close>
  \<^verbatim>\<open>{ error |= SDL_SetRenderDrawColor(renderer, r, g, b, a); return *this; }\<close>\<close>

definition Renderer_SetDrawColor ::
  "sdl \<Rightarrow> Renderer \<Rightarrow> Uint8 \<Rightarrow> Uint8 \<Rightarrow> Uint8 \<Rightarrow> Uint8 \<Rightarrow> world \<Rightarrow> Renderer \<times> world" where
  "Renderer_SetDrawColor L r cr cg cb ca \<sigma> =
     (let (rc, \<sigma>') = call_int L SDL_SetRenderDrawColor
                        [P (Renderer.renderer r), U8 cr, U8 cg, U8 cb, U8 ca] \<sigma>
      in (r\<lparr>Renderer.error := Renderer.error r OR rc\<rparr>, \<sigma>'))"

text \<open>\<^verbatim>\<open>Renderer& Renderer::Clear() { error |= SDL_RenderClear(renderer); return *this; }\<close>\<close>

definition Renderer_Clear :: "sdl \<Rightarrow> Renderer \<Rightarrow> world \<Rightarrow> Renderer \<times> world" where
  "Renderer_Clear L r \<sigma> =
     (let (rc, \<sigma>') = call_int L SDL_RenderClear [P (Renderer.renderer r)] \<sigma>
      in (r\<lparr>Renderer.error := Renderer.error r OR rc\<rparr>, \<sigma>'))"

text \<open>\<^verbatim>\<open>Renderer& Renderer::Flush() { error |= SDL_RenderFlush(renderer); return *this; }\<close>\<close>

definition Renderer_Flush :: "sdl \<Rightarrow> Renderer \<Rightarrow> world \<Rightarrow> Renderer \<times> world" where
  "Renderer_Flush L r \<sigma> =
     (let (rc, \<sigma>') = call_int L SDL_RenderFlush [P (Renderer.renderer r)] \<sigma>
      in (r\<lparr>Renderer.error := Renderer.error r OR rc\<rparr>, \<sigma>'))"

text \<open>\<^verbatim>\<open>Renderer& Renderer::Present() { SDL_RenderPresent(renderer); return *this; }\<close>\<close>

definition Renderer_Present :: "Renderer \<Rightarrow> world \<Rightarrow> Renderer \<times> world" where
  "Renderer_Present r \<sigma> = (r, call_void SDL_RenderPresent [P (Renderer.renderer r)] \<sigma>)"

text \<open>\<^verbatim>\<open>Renderer& Renderer::DrawOutline() { error |= SDL_RenderDrawRect(renderer, NULL); return *this; }\<close>\<close>

definition Renderer_DrawOutline :: "sdl \<Rightarrow> Renderer \<Rightarrow> world \<Rightarrow> Renderer \<times> world" where
  "Renderer_DrawOutline L r \<sigma> =
     (let (rc, \<sigma>') = call_int L SDL_RenderDrawRect [P (Renderer.renderer r), R None] \<sigma>
      in (r\<lparr>Renderer.error := Renderer.error r OR rc\<rparr>, \<sigma>'))"

text \<open>\<^verbatim>\<open>Renderer& Renderer::DrawRect(const Rect& rect)\<close>
  \<^verbatim>\<open>{ error |= SDL_RenderDrawRect(renderer, &rect.rect); return *this; }\<close>\<close>

definition Renderer_DrawRect :: "sdl \<Rightarrow> Renderer \<Rightarrow> Rect \<Rightarrow> world \<Rightarrow> Renderer \<times> world" where
  "Renderer_DrawRect L r rect \<sigma> =
     (let (rc, \<sigma>') = call_int L SDL_RenderDrawRect [P (Renderer.renderer r), R (Some rect)] \<sigma>
      in (r\<lparr>Renderer.error := Renderer.error r OR rc\<rparr>, \<sigma>'))"

text \<open>\<^verbatim>\<open>Renderer& Renderer::Fill() { error |= SDL_RenderFillRect(renderer, NULL); return *this; }\<close>\<close>

definition Renderer_Fill :: "sdl \<Rightarrow> Renderer \<Rightarrow> world \<Rightarrow> Renderer \<times> world" where
  "Renderer_Fill L r \<sigma> =
     (let (rc, \<sigma>') = call_int L SDL_RenderFillRect [P (Renderer.renderer r), R None] \<sigma>
      in (r\<lparr>Renderer.error := Renderer.error r OR rc\<rparr>, \<sigma>'))"

text \<open>\<^verbatim>\<open>Renderer& Renderer::FillRect (const  Rect& rect)\<close>
  \<^verbatim>\<open>{ error |= SDL_RenderFillRect(renderer, &rect.rect); return *this; }\<close>\<close>

definition Renderer_FillRect :: "sdl \<Rightarrow> Renderer \<Rightarrow> Rect \<Rightarrow> world \<Rightarrow> Renderer \<times> world" where
  "Renderer_FillRect L r rect \<sigma> =
     (let (rc, \<sigma>') = call_int L SDL_RenderFillRect [P (Renderer.renderer r), R (Some rect)] \<sigma>
      in (r\<lparr>Renderer.error := Renderer.error r OR rc\<rparr>, \<sigma>'))"

text \<open>\<^verbatim>\<open>int Renderer::GetNumDrivers() { return SDL_GetNumRenderDrivers(); }\<close>\<close>

definition Renderer_GetNumDrivers :: "sdl \<Rightarrow> world \<Rightarrow> cint \<times> world" where
  "Renderer_GetNumDrivers L \<sigma> = call_int L SDL_GetNumRenderDrivers [] \<sigma>"

text \<open>\<^verbatim>\<open>Point Renderer::GetOutputSize() { Point returnVal;\<close>
  \<^verbatim>\<open>error |= SDL_GetRendererOutputSize(renderer, &returnVal.w, &returnVal.h); return returnVal; }\<close>
  The method returns the size and changes the object.\<close>

definition Renderer_GetOutputSize :: "sdl \<Rightarrow> Renderer \<Rightarrow> world \<Rightarrow> Point \<times> Renderer \<times> world" where
  "Renderer_GetOutputSize L r \<sigma> =
     (let ((rc, returnVal), \<sigma>') =
            call_int_out_ints L SDL_GetRendererOutputSize [P (Renderer.renderer r)] \<sigma>
      in (returnVal, r\<lparr>Renderer.error := Renderer.error r OR rc\<rparr>, \<sigma>'))"

text \<open>\<^verbatim>\<open>Renderer& Renderer::GetOutputSize(Point& size)\<close>
  \<^verbatim>\<open>{ error |= SDL_GetRendererOutputSize(renderer, &size.w, &size.h); return *this; }\<close>\<close>

definition Renderer_GetOutputSize_ref ::
  "sdl \<Rightarrow> Renderer \<Rightarrow> Point \<Rightarrow> world \<Rightarrow> Renderer \<times> Point \<times> world" where
  "Renderer_GetOutputSize_ref L r size0 \<sigma> =
     (let ((rc, size'), \<sigma>') =
            call_int_out_ints L SDL_GetRendererOutputSize [P (Renderer.renderer r)] \<sigma>
      in (r\<lparr>Renderer.error := Renderer.error r OR rc\<rparr>, size', \<sigma>'))"

text \<open>\<^verbatim>\<open>bool Renderer::TargetSupported() { return SDL_RenderTargetSupported(renderer); }\<close> and
  \<^verbatim>\<open>Renderer& Renderer::TargetSupported(bool& support)\<close>
  \<^verbatim>\<open>{ support = SDL_RenderTargetSupported(renderer); return *this; }\<close>\<close>

definition Renderer_TargetSupported :: "sdl \<Rightarrow> Renderer \<Rightarrow> world \<Rightarrow> bool \<times> world" where
  "Renderer_TargetSupported L r \<sigma> =
     (let (b, \<sigma>') = call_bool L SDL_RenderTargetSupported [P (Renderer.renderer r)] \<sigma>
      in (bool_of_SDL_bool b, \<sigma>'))"

definition Renderer_TargetSupported_ref ::
  "sdl \<Rightarrow> Renderer \<Rightarrow> bool \<Rightarrow> world \<Rightarrow> Renderer \<times> bool \<times> world" where
  "Renderer_TargetSupported_ref L r support \<sigma> =
     (let (b, \<sigma>') = call_bool L SDL_RenderTargetSupported [P (Renderer.renderer r)] \<sigma>
      in (r, bool_of_SDL_bool b, \<sigma>'))"

text \<open>\<^verbatim>\<open>Renderer& Renderer::SetLogicalSize(int w, int h)\<close>
  \<^verbatim>\<open>{ error |= SDL_RenderSetLogicalSize(renderer, w, h); return *this; }\<close>\<close>

definition Renderer_SetLogicalSize :: "sdl \<Rightarrow> Renderer \<Rightarrow> cint \<Rightarrow> cint \<Rightarrow> world \<Rightarrow> Renderer \<times> world" where
  "Renderer_SetLogicalSize L r lw lh \<sigma> =
     (let (rc, \<sigma>') = call_int L SDL_RenderSetLogicalSize [P (Renderer.renderer r), I lw, I lh] \<sigma>
      in (r\<lparr>Renderer.error := Renderer.error r OR rc\<rparr>, \<sigma>'))"

text \<open>\<^verbatim>\<open>Renderer& Renderer::SetIntegerScale(bool enable)\<close>
  \<^verbatim>\<open>{ error |= SDL_RenderSetIntegerScale(renderer, (SDL_bool)enable); return *this; }\<close>\<close>

definition Renderer_SetIntegerScale :: "sdl \<Rightarrow> Renderer \<Rightarrow> bool \<Rightarrow> world \<Rightarrow> Renderer \<times> world" where
  "Renderer_SetIntegerScale L r enable \<sigma> =
     (let (rc, \<sigma>') = call_int L SDL_RenderSetIntegerScale [P (Renderer.renderer r), B enable] \<sigma>
      in (r\<lparr>Renderer.error := Renderer.error r OR rc\<rparr>, \<sigma>'))"

text \<open>\<^verbatim>\<open>bool Renderer::GetIntegerScale() { return SDL_RenderGetIntegerScale(renderer); }\<close> and
  \<^verbatim>\<open>Renderer& Renderer::GetIntegerScale(bool& enabled)\<close>
  \<^verbatim>\<open>{ enabled = SDL_RenderGetIntegerScale(renderer); return *this; }\<close>\<close>

definition Renderer_GetIntegerScale :: "sdl \<Rightarrow> Renderer \<Rightarrow> world \<Rightarrow> bool \<times> world" where
  "Renderer_GetIntegerScale L r \<sigma> =
     (let (b, \<sigma>') = call_bool L SDL_RenderGetIntegerScale [P (Renderer.renderer r)] \<sigma>
      in (bool_of_SDL_bool b, \<sigma>'))"

definition Renderer_GetIntegerScale_ref ::
  "sdl \<Rightarrow> Renderer \<Rightarrow> bool \<Rightarrow> world \<Rightarrow> Renderer \<times> bool \<times> world" where
  "Renderer_GetIntegerScale_ref L r enabled \<sigma> =
     (let (b, \<sigma>') = call_bool L SDL_RenderGetIntegerScale [P (Renderer.renderer r)] \<sigma>
      in (r, bool_of_SDL_bool b, \<sigma>'))"

text \<open>\<^verbatim>\<open>Renderer& Renderer::FillViewport() { error |= SDL_RenderSetViewport(renderer, NULL); return *this; }\<close>\<close>

definition Renderer_FillViewport :: "sdl \<Rightarrow> Renderer \<Rightarrow> world \<Rightarrow> Renderer \<times> world" where
  "Renderer_FillViewport L r \<sigma> =
     (let (rc, \<sigma>') = call_int L SDL_RenderSetViewport [P (Renderer.renderer r), R None] \<sigma>
      in (r\<lparr>Renderer.error := Renderer.error r OR rc\<rparr>, \<sigma>'))"

text \<open>\<^verbatim>\<open>Renderer& Renderer::SetClipRect(const Rect& rect)\<close>
  \<^verbatim>\<open>{ error |= SDL_RenderSetClipRect(renderer, &rect.rect); return *this; }\<close>\<close>

definition Renderer_SetClipRect :: "sdl \<Rightarrow> Renderer \<Rightarrow> Rect \<Rightarrow> world \<Rightarrow> Renderer \<times> world" where
  "Renderer_SetClipRect L r rect \<sigma> =
     (let (rc, \<sigma>') = call_int L SDL_RenderSetClipRect [P (Renderer.renderer r), R (Some rect)] \<sigma>
      in (r\<lparr>Renderer.error := Renderer.error r OR rc\<rparr>, \<sigma>'))"

text \<open>\<^verbatim>\<open>Renderer& Renderer::DisableClip() { error |= SDL_RenderSetClipRect(renderer, NULL); return *this; }\<close>\<close>

definition Renderer_DisableClip :: "sdl \<Rightarrow> Renderer \<Rightarrow> world \<Rightarrow> Renderer \<times> world" where
  "Renderer_DisableClip L r \<sigma> =
     (let (rc, \<sigma>') = call_int L SDL_RenderSetClipRect [P (Renderer.renderer r), R None] \<sigma>
      in (r\<lparr>Renderer.error := Renderer.error r OR rc\<rparr>, \<sigma>'))"

text \<open>\<^verbatim>\<open>bool Renderer::IsClipEnabled() { return SDL_RenderIsClipEnabled(renderer); }\<close>\<close>

definition Renderer_IsClipEnabled :: "sdl \<Rightarrow> Renderer \<Rightarrow> world \<Rightarrow> bool \<times> world" where
  "Renderer_IsClipEnabled L r \<sigma> =
     (let (b, \<sigma>') = call_bool L SDL_RenderIsClipEnabled [P (Renderer.renderer r)] \<sigma>
      in (bool_of_SDL_bool b, \<sigma>'))"

text \<open>\<^verbatim>\<open>Renderer& Renderer::IsClipEnabled(bool& enabled)\<close>
  \<^verbatim>\<open>{ error |= SDL_RenderIsClipEnabled(renderer); return *this; }\<close>
  The body never assigns \<^verbatim>\<open>enabled\<close>: the parameter comes back as it went in.\<close>

definition Renderer_IsClipEnabled_ref ::
  "sdl \<Rightarrow> Renderer \<Rightarrow> bool \<Rightarrow> world \<Rightarrow> Renderer \<times> bool \<times> world" where
  "Renderer_IsClipEnabled_ref L r enabled \<sigma> =
     (let (b, \<sigma>') = call_bool L SDL_RenderIsClipEnabled [P (Renderer.renderer r)] \<sigma>
      in (r\<lparr>Renderer.error := Renderer.error r OR int_of_SDL_bool b\<rparr>, enabled, \<sigma>'))"

text \<open>\<^verbatim>\<open>Texture::Texture(Renderer& renderer, SDL_Texture* texture, bool free)\<close>
  \<^verbatim>\<open>: renderer(renderer), texture(texture), freeTexture(free && texture != NULL) {}\<close>\<close>

definition Texture_ctor :: "Renderer \<Rightarrow> ptr \<Rightarrow> bool \<Rightarrow> Texture" where
  "Texture_ctor rnd p free = \<lparr>Texture.renderer = rnd, texture = p, freeTexture = (free \<and> p \<noteq> NULL)\<rparr>"

text \<open>\<^verbatim>\<open>Texture::~Texture() { if (freeTexture) SDL_DestroyTexture(texture); }\<close>\<close>

definition Texture_dtor :: "Texture \<Rightarrow> world \<Rightarrow> world" where
  "Texture_dtor txt \<sigma> =
     (if freeTexture txt then call_void SDL_DestroyTexture [P (texture txt)] \<sigma> else \<sigma>)"

text \<open>\<^verbatim>\<open>Texture::Texture(Texture& txt) : Texture(txt.renderer, txt.texture, false) {}\<close>\<close>

definition Texture_copy :: "Texture \<Rightarrow> Texture \<times> Texture" where
  "Texture_copy txt = (Texture_ctor (Texture.renderer txt) (texture txt) False, txt)"

text \<open>\<^verbatim>\<open>Texture::Texture(Texture&& txt) : Texture(txt.renderer, txt.texture, txt.freeTexture)\<close>
  \<^verbatim>\<open>{ txt.freeTexture = false; }\<close>\<close>

definition Texture_move :: "Texture \<Rightarrow> Texture \<times> Texture" where
  "Texture_move txt =
     (Texture_ctor (Texture.renderer txt) (texture txt) (freeTexture txt),
      txt\<lparr>freeTexture := False\<rparr>)"

text \<open>\<^verbatim>\<open>Texture& Texture::operator=(Texture that) { std::swap(renderer, that.renderer);\<close>
  \<^verbatim>\<open>std::swap(texture, that.texture); std::swap(freeTexture, that.freeTexture); return *this; }\<close>
  The first swap is \<open>Renderer_swap\<close> on the two \<^verbatim>\<open>renderer\<close> members, the other two exchange a
  pointer and a \<^verbatim>\<open>bool\<close>. \<open>that\<close> is destroyed when the assignment completes.\<close>

definition Texture_assign :: "Texture \<Rightarrow> Texture \<Rightarrow> cint \<Rightarrow> world \<Rightarrow> Texture \<times> world" where
  "Texture_assign this that e \<sigma> =
     (let ((r1, r2), \<sigma>1) = Renderer_swap (Texture.renderer this) (Texture.renderer that) e \<sigma>;
          this' = this\<lparr>Texture.renderer := r1, texture := texture that,
                       freeTexture := freeTexture that\<rparr>;
          that' = that\<lparr>Texture.renderer := r2, texture := texture this,
                       freeTexture := freeTexture this\<rparr>
      in (this', Texture_dtor that' \<sigma>1))"

text \<open>\<^verbatim>\<open>Renderer& Renderer::SetTarget(Texture& texture)\<close>
  \<^verbatim>\<open>{ error |= SDL_SetRenderTarget(renderer, texture.texture); return *this; }\<close>\<close>

definition Renderer_SetTarget :: "sdl \<Rightarrow> Renderer \<Rightarrow> Texture \<Rightarrow> world \<Rightarrow> Renderer \<times> world" where
  "Renderer_SetTarget L r txt \<sigma> =
     (let (rc, \<sigma>') = call_int L SDL_SetRenderTarget [P (Renderer.renderer r), P (texture txt)] \<sigma>
      in (r\<lparr>Renderer.error := Renderer.error r OR rc\<rparr>, \<sigma>'))"

text \<open>\<^verbatim>\<open>Renderer& Renderer::GetTarget(Texture& target) { target.~Texture();\<close>
  \<^verbatim>\<open>target.texture = SDL_GetRenderTarget(renderer); return *this; }\<close>\<close>

definition Renderer_GetTarget_ref ::
  "sdl \<Rightarrow> Renderer \<Rightarrow> Texture \<Rightarrow> world \<Rightarrow> Renderer \<times> Texture \<times> world" where
  "Renderer_GetTarget_ref L r target \<sigma> =
     (let \<sigma>1 = Texture_dtor target \<sigma>;
          (p, \<sigma>2) = call_ptr L SDL_GetRenderTarget [P (Renderer.renderer r)] \<sigma>1
      in (r, target\<lparr>texture := p\<rparr>, \<sigma>2))"

text \<open>\<^verbatim>\<open>int Texture::LockRectToSurface(const Rect& rect, Surface& surface) { surface.~Surface();\<close>
  \<^verbatim>\<open>int returnVal = SDL_LockTextureToSurface(texture, &rect.rect, &surface.surface);\<close>
  \<^verbatim>\<open>surface.freeSurface = surface.surface != NULL; return returnVal; }\<close>
  The library is handed the address of the handle member, so the slot it may fill holds the
  old handle.\<close>

definition Texture_LockRectToSurface ::
  "sdl \<Rightarrow> Texture \<Rightarrow> Rect \<Rightarrow> Surface \<Rightarrow> world \<Rightarrow> cint \<times> Surface \<times> world" where
  "Texture_LockRectToSurface L txt rect s \<sigma> =
     (let \<sigma>1 = Surface_dtor s \<sigma>;
          ((returnVal, p), \<sigma>2) =
             call_int_out_ptr L SDL_LockTextureToSurface [P (texture txt), R (Some rect)] (surface s) \<sigma>1;
          s = s\<lparr>surface := p\<rparr>;
          s = s\<lparr>freeSurface := (surface s \<noteq> NULL)\<rparr>
      in (returnVal, s, \<sigma>2))"

text \<open>\<^verbatim>\<open>int Texture::LockToSurface(Surface& surface) { surface.~Surface();\<close>
  \<^verbatim>\<open>int returnVal = SDL_LockTextureToSurface(texture, NULL, &surface.surface);\<close>
  \<^verbatim>\<open>surface.freeSurface = surface.surface != NULL; return returnVal; }\<close>\<close>

definition Texture_LockToSurface ::
  "sdl \<Rightarrow> Texture \<Rightarrow> Surface \<Rightarrow> world \<Rightarrow> cint \<times> Surface \<times> world" where
  "Texture_LockToSurface L txt s \<sigma> =
     (let \<sigma>1 = Surface_dtor s \<sigma>;
          ((returnVal, p), \<sigma>2) =
             call_int_out_ptr L SDL_LockTextureToSurface [P (texture txt), R None] (surface s) \<sigma>1;
          s = s\<lparr>surface := p\<rparr>;
          s = s\<lparr>freeSurface := (surface s \<noteq> NULL)\<rparr>
      in (returnVal, s, \<sigma>2))"

text \<open>\<^verbatim>\<open>void Texture::Unlock() { SDL_UnlockTexture(texture); }\<close>\<close>

definition Texture_Unlock :: "Texture \<Rightarrow> world \<Rightarrow> world" where
  "Texture_Unlock txt \<sigma> = call_void SDL_UnlockTexture [P (texture txt)] \<sigma>"

text \<open>\<^verbatim>\<open>int Texture::Copy(const Rect& src, const Rect& dst)\<close>
  \<^verbatim>\<open>{ return SDL_RenderCopy(renderer.renderer, texture, &src.rect, &dst.rect); }\<close>\<close>

definition Texture_Copy :: "sdl \<Rightarrow> Texture \<Rightarrow> Rect \<Rightarrow> Rect \<Rightarrow> world \<Rightarrow> cint \<times> world" where
  "Texture_Copy L txt src dst \<sigma> =
     call_int L SDL_RenderCopy
       [P (Renderer.renderer (Texture.renderer txt)), P (texture txt), R (Some src), R (Some dst)] \<sigma>"

text \<open>\<^verbatim>\<open>int Texture::Copy_Fill() { return SDL_RenderCopy(renderer.renderer, texture, NULL, NULL); }\<close>\<close>

definition Texture_Copy_Fill :: "sdl \<Rightarrow> Texture \<Rightarrow> world \<Rightarrow> cint \<times> world" where
  "Texture_Copy_Fill L txt \<sigma> =
     call_int L SDL_RenderCopy
       [P (Renderer.renderer (Texture.renderer txt)), P (texture txt), R None, R None] \<sigma>"

text \<open>\<^verbatim>\<open>int Texture::SetColorMod(Uint8 r, Uint8 g, Uint8 b)\<close>
  \<^verbatim>\<open>{ return SDL_SetTextureColorMod(texture, r, g, b); }\<close>\<close>

definition Texture_SetColorMod :: "sdl \<Rightarrow> Texture \<Rightarrow> Uint8 \<Rightarrow> Uint8 \<Rightarrow> Uint8 \<Rightarrow> world \<Rightarrow> cint \<times> world" where
  "Texture_SetColorMod L txt cr cg cb \<sigma> =
     call_int L SDL_SetTextureColorMod [P (texture txt), U8 cr, U8 cg, U8 cb] \<sigma>"

text \<open>\<^verbatim>\<open>int Texture::SetAlphaMod(Uint8 alpha) { return SDL_SetTextureAlphaMod(texture, alpha); }\<close>\<close>

definition Texture_SetAlphaMod :: "sdl \<Rightarrow> Texture \<Rightarrow> Uint8 \<Rightarrow> world \<Rightarrow> cint \<times> world" where
  "Texture_SetAlphaMod L txt alpha \<sigma> = call_int L SDL_SetTextureAlphaMod [P (texture txt), U8 alpha] \<sigma>"

text \<open>\<^verbatim>\<open>int Texture::GetColorMod(Uint8& r, Uint8& g, Uint8& b)\<close>
  \<^verbatim>\<open>{ return SDL_GetTextureColorMod(texture, &r, &g, &b); }\<close> and
  \<^verbatim>\<open>int Texture::GetAlphaMod(Uint8& alpha) { return SDL_GetTextureAlphaMod(texture, &alpha); }\<close>
  What the library stores in the colour is not modelled.\<close>

definition Texture_GetColorMod :: "sdl \<Rightarrow> Texture \<Rightarrow> world \<Rightarrow> cint \<times> world" where
  "Texture_GetColorMod L txt \<sigma> = call_int L SDL_GetTextureColorMod [P (texture txt)] \<sigma>"

definition Texture_GetAlphaMod :: "sdl \<Rightarrow> Texture \<Rightarrow> world \<Rightarrow> cint \<times> world" where
  "Texture_GetAlphaMod L txt \<sigma> = call_int L SDL_GetTextureAlphaMod [P (texture txt)] \<sigma>"

text \<open>\<^verbatim>\<open>int Texture::GetMod(Colour& c) { return GetColorMod(c.r, c.g, c.b) | GetAlphaMod(c.a); }\<close>
  C++ leaves the order of the two operands of \<^verbatim>\<open>|\<close> open: \<open>colour_first\<close> says which call the
  compiler makes first.\<close>

definition Texture_GetMod :: "sdl \<Rightarrow> bool \<Rightarrow> Texture \<Rightarrow> world \<Rightarrow> cint \<times> world" where
  "Texture_GetMod L colour_first txt \<sigma> =
     (if colour_first
      then let (rc1, \<sigma>1) = Texture_GetColorMod L txt \<sigma>;
               (rc2, \<sigma>2) = Texture_GetAlphaMod L txt \<sigma>1
           in (rc1 OR rc2, \<sigma>2)
      else let (rc2, \<sigma>1) = Texture_GetAlphaMod L txt \<sigma>;
               (rc1, \<sigma>2) = Texture_GetColorMod L txt \<sigma>1
           in (rc1 OR rc2, \<sigma>2))"

text \<open>\<^verbatim>\<open>std::tuple<int, int> Texture::SetMod(const Colour& c)\<close>
  \<^verbatim>\<open>{ return { SetColorMod(c.r, c.g, c.b), SetAlphaMod(c.a) }; }\<close>
  The initialisers of a braced list are evaluated left to right. A \<^verbatim>\<open>Colour\<close> is the tuple of its
  members \<^verbatim>\<open>r\<close>, \<^verbatim>\<open>g\<close>, \<^verbatim>\<open>b\<close>, \<^verbatim>\<open>a\<close>.\<close>

definition Texture_SetMod ::
  "sdl \<Rightarrow> Texture \<Rightarrow> Uint8 \<times> Uint8 \<times> Uint8 \<times> Uint8 \<Rightarrow> world \<Rightarrow> (cint \<times> cint) \<times> world" where
  "Texture_SetMod L txt c \<sigma> =
     (case c of (cr, cg, cb, ca) \<Rightarrow>
        let (rc1, \<sigma>1) = Texture_SetColorMod L txt cr cg cb \<sigma>;
            (rc2, \<sigma>2) = Texture_SetAlphaMod L txt ca \<sigma>1
        in ((rc1, rc2), \<sigma>2))"

text \<open>\<^verbatim>\<open>int SDL::CreateWindowAndRenderer(const Point& size, Window& window, Renderer& renderer,\<close>
  \<^verbatim>\<open>Uint32 window_flags) { window.~Window(); renderer.~Renderer();\<close>
  \<^verbatim>\<open>int returnVal = SDL_CreateWindowAndRenderer(size.w, size.h, window_flags,\<close>
  \<^verbatim>\<open>&window.window, &renderer.renderer);\<close>
  \<^verbatim>\<open>window.freeWindow = window.window != NULL;\<close>
  \<^verbatim>\<open>renderer.freeRenderer = renderer.renderer != NULL; return returnVal; }\<close>\<close>

definition CreateWindowAndRenderer ::
  "sdl \<Rightarrow> Point \<Rightarrow> Window \<Rightarrow> Renderer \<Rightarrow> Uint32 \<Rightarrow> world \<Rightarrow> cint \<times> Window \<times> Renderer \<times> world" where
  "CreateWindowAndRenderer L size0 wnd rnd window_flags \<sigma> =
     (let \<sigma>1 = Window_dtor wnd \<sigma>;
          \<sigma>2 = Renderer_dtor rnd \<sigma>1;
          ((returnVal, pw, pr), \<sigma>3) =
             call_int_out_ptrs L SDL_CreateWindowAndRenderer
               [I (fst size0), I (snd size0), U window_flags] (window wnd, Renderer.renderer rnd) \<sigma>2;
          wnd = wnd\<lparr>window := pw\<rparr>;
          rnd = rnd\<lparr>Renderer.renderer := pr\<rparr>;
          wnd = wnd\<lparr>freeWindow := (window wnd \<noteq> NULL)\<rparr>;
          rnd = rnd\<lparr>freeRenderer := (Renderer.renderer rnd \<noteq> NULL)\<rparr>
      in (returnVal, wnd, rnd, \<sigma>3))"

text \<open>\<^verbatim>\<open>Renderer& Renderer::GetDriverInfo(int index, Info& info)\<close>
  \<^verbatim>\<open>{ error |= SDL_GetRenderDriverInfo(index, &info); return *this; }\<close>
  What the library stores in \<^verbatim>\<open>info\<close> is not modelled.\<close>

definition Renderer_GetDriverInfo :: "sdl \<Rightarrow> Renderer \<Rightarrow> cint \<Rightarrow> world \<Rightarrow> Renderer \<times> world" where
  "Renderer_GetDriverInfo L r index \<sigma> =
     (let (rc, \<sigma>') = call_int L SDL_GetRenderDriverInfo [I index] \<sigma>
      in (r\<lparr>Renderer.error := Renderer.error r OR rc\<rparr>, \<sigma>'))"

text \<open>
  \<^verbatim>\<open>Renderer& Renderer::M(...) { error |= SDL_f(renderer, args...); return *this; }\<close>
  The body of the other 39 chaining methods of \<^verbatim>\<open>render.cpp\<close>, which differ only in the native
  function and in the arguments after the handle: SetDrawColor(const Colour&), GetDrawColor
  (both), SetDrawBlendMode, GetDrawBlendMode, DrawLine, DrawLineF, DrawLines and DrawLinesF
  (both each), DrawPoint, DrawPointF, DrawPoints and DrawPointsF (both each), DrawOutlineF,
  DrawRect(const Rect*), DrawRectF (both), DrawRects and DrawRectsF (both each), FillF,
  FillRect(const Rect*), FillRectF (both), FillRects and FillRectsF (both each), GetInfo,
  GetOutputSize(int&, int&), SetLogicalSize(const Point&), SetViewport, ReadPixelsRect and
  ReadPixels. What the library stores through their reference and pointer parameters (a colour,
  a blend mode, the renderer info, a size, pixels) is not modelled.
\<close>

definition Renderer_chained ::
  "sdl \<Rightarrow> Renderer \<Rightarrow> native \<Rightarrow> arg list \<Rightarrow> world \<Rightarrow> Renderer \<times> world" where
  "Renderer_chained L r f as \<sigma> =
     (let (rc, \<sigma>') = call_int L f (P (Renderer.renderer r) # as) \<sigma>
      in (r\<lparr>Renderer.error := Renderer.error r OR rc\<rparr>, \<sigma>'))"

section \<open>Sequences of Renderer operations\<close>

text \<open>
  The operations of \<^verbatim>\<open>Renderer\<close> that OR the result of their native call into \<^verbatim>\<open>error\<close>, each
  with its arguments: the ones modelled above one by one, and \<open>Chained f as\<close> for the others.
  All but \<^verbatim>\<open>GetOutputSize()\<close> return the object, so a caller chains them:
  \<^verbatim>\<open>r.SetScale(2, 2).Clear().Flush()\<close>.
\<close>

datatype rop =
    SetScale_FPoint FPoint | SetScale cfloat cfloat | SetDrawColor Uint8 Uint8 Uint8 Uint8
  | Clear | Flush | DrawOutline | DrawRect Rect | Fill | FillRect Rect
  | SetLogicalSize cint cint | SetIntegerScale bool | FillViewport | SetClipRect Rect
  | DisableClip | SetTarget Texture | IsClipEnabled_ref bool | GetOutputSize_ref Point
  | GetOutputSize | GetDriverInfo cint | Chained native "arg list"

fun Renderer_do :: "sdl \<Rightarrow> rop \<Rightarrow> Renderer \<Rightarrow> world \<Rightarrow> Renderer \<times> world" where
  "Renderer_do L (SetScale_FPoint scale) r \<sigma> = Renderer_SetScale_FPoint L r scale \<sigma>"
| "Renderer_do L (SetScale scaleX scaleY) r \<sigma> = Renderer_SetScale L r scaleX scaleY \<sigma>"
| "Renderer_do L (SetDrawColor cr cg cb ca) r \<sigma> = Renderer_SetDrawColor L r cr cg cb ca \<sigma>"
| "Renderer_do L Clear r \<sigma> = Renderer_Clear L r \<sigma>"
| "Renderer_do L Flush r \<sigma> = Renderer_Flush L r \<sigma>"
| "Renderer_do L DrawOutline r \<sigma> = Renderer_DrawOutline L r \<sigma>"
| "Renderer_do L (DrawRect rect) r \<sigma> = Renderer_DrawRect L r rect \<sigma>"
| "Renderer_do L Fill r \<sigma> = Renderer_Fill L r \<sigma>"
| "Renderer_do L (FillRect rect) r \<sigma> = Renderer_FillRect L r rect \<sigma>"
| "Renderer_do L (SetLogicalSize lw lh) r \<sigma> = Renderer_SetLogicalSize L r lw lh \<sigma>"
| "Renderer_do L (SetIntegerScale enable) r \<sigma> = Renderer_SetIntegerScale L r enable \<sigma>"
| "Renderer_do L FillViewport r \<sigma> = Renderer_FillViewport L r \<sigma>"
| "Renderer_do L (SetClipRect rect) r \<sigma> = Renderer_SetClipRect L r rect \<sigma>"
| "Renderer_do L DisableClip r \<sigma> = Renderer_DisableClip L r \<sigma>"
| "Renderer_do L (SetTarget txt) r \<sigma> = Renderer_SetTarget L r txt \<sigma>"
| "Renderer_do L (IsClipEnabled_ref enabled) r \<sigma> =
     (case Renderer_IsClipEnabled_ref L r enabled \<sigma> of (r', enabled', \<sigma>') \<Rightarrow> (r', \<sigma>'))"
| "Renderer_do L (GetOutputSize_ref size0) r \<sigma> =
     (case Renderer_GetOutputSize_ref L r size0 \<sigma> of (r', size', \<sigma>') \<Rightarrow> (r', \<sigma>'))"
| "Renderer_do L GetOutputSize r \<sigma> =
     (case Renderer_GetOutputSize L r \<sigma> of (returnVal, r', \<sigma>') \<Rightarrow> (r', \<sigma>'))"
| "Renderer_do L (GetDriverInfo index) r \<sigma> = Renderer_GetDriverInfo L r index \<sigma>"
| "Renderer_do L (Chained f as) r \<sigma> = Renderer_chained L r f as \<sigma>"

fun Renderer_run :: "sdl \<Rightarrow> rop list \<Rightarrow> Renderer \<Rightarrow> world \<Rightarrow> Renderer \<times> world" where
  "Renderer_run L [] r \<sigma> = (r, \<sigma>)"
| "Renderer_run L (op # ops) r \<sigma> =
     (case Renderer_do L op r \<sigma> of (r', \<sigma>') \<Rightarrow> Renderer_run L ops r' \<sigma>')"

text \<open>The native call an operation makes on a renderer handle.\<close>

fun rop_call :: "rop \<Rightarrow> ptr \<Rightarrow> call" where
  "rop_call (SetScale_FPoint scale) p = Call SDL_RenderSetScale [P p, F (fst scale), F (snd scale)]"
| "rop_call (SetScale scaleX scaleY) p = Call SDL_RenderSetScale [P p, F scaleX, F scaleY]"
| "rop_call (SetDrawColor cr cg cb ca) p = Call SDL_SetRenderDrawColor [P p, U8 cr, U8 cg, U8 cb, U8 ca]"
| "rop_call Clear p = Call SDL_RenderClear [P p]"
| "rop_call Flush p = Call SDL_RenderFlush [P p]"
| "rop_call DrawOutline p = Call SDL_RenderDrawRect [P p, R None]"
| "rop_call (DrawRect rect) p = Call SDL_RenderDrawRect [P p, R (Some rect)]"
| "rop_call Fill p = Call SDL_RenderFillRect [P p, R None]"
| "rop_call (FillRect rect) p = Call SDL_RenderFillRect [P p, R (Some rect)]"
| "rop_call (SetLogicalSize lw lh) p = Call SDL_RenderSetLogicalSize [P p, I lw, I lh]"
| "rop_call (SetIntegerScale enable) p = Call SDL_RenderSetIntegerScale [P p, B enable]"
| "rop_call FillViewport p = Call SDL_RenderSetViewport [P p, R None]"
| "rop_call (SetClipRect rect) p = Call SDL_RenderSetClipRect [P p, R (Some rect)]"
| "rop_call DisableClip p = Call SDL_RenderSetClipRect [P p, R None]"
| "rop_call (SetTarget txt) p = Call SDL_SetRenderTarget [P p, P (texture txt)]"
| "rop_call (IsClipEnabled_ref enabled) p = Call SDL_RenderIsClipEnabled [P p]"
| "rop_call (GetOutputSize_ref size0) p = Call SDL_GetRendererOutputSize [P p]"
| "rop_call GetOutputSize p = Call SDL_GetRendererOutputSize [P p]"
| "rop_call (GetDriverInfo index) p = Call SDL_GetRenderDriverInfo [I index]"
| "rop_call (Chained f as) p = Call f (P p # as)"

text \<open>The code that call returns in a given state of the library (for \<^verbatim>\<open>SDL_RenderIsClipEnabled\<close>
  the \<^verbatim>\<open>SDL_bool\<close> as an \<^verbatim>\<open>int\<close>).\<close>

fun rop_code :: "sdl \<Rightarrow> rop \<Rightarrow> ptr \<Rightarrow> world \<Rightarrow> cint" where
  "rop_code L (IsClipEnabled_ref enabled) p \<sigma> =
     int_of_SDL_bool (ret_bool L \<sigma> (rop_call (IsClipEnabled_ref enabled) p))"
| "rop_code L op p \<sigma> = ret_int L \<sigma> (rop_call op p)"

text \<open>The codes the native calls of a sequence return, in order.\<close>

fun Renderer_codes :: "sdl \<Rightarrow> rop list \<Rightarrow> ptr \<Rightarrow> world \<Rightarrow> cint list" where
  "Renderer_codes L [] p \<sigma> = []"
| "Renderer_codes L (op # ops) p \<sigma> =
     rop_code L op p \<sigma> # Renderer_codes L ops p (\<sigma> @ [rop_call op p])"

section \<open>Concrete libraries and objects\<close>

text \<open>A library that answers every call alike: return code \<open>rc\<close>, boolean \<open>b\<close>, handle \<open>p\<close>
  (returned, and stored in every handle slot), size 640 by 480 and scale 1 by 1.\<close>

definition sdl_const :: "cint \<Rightarrow> SDL_bool \<Rightarrow> ptr \<Rightarrow> sdl" where
  "sdl_const rc b p =
     \<lparr>ret_int = (\<lambda>\<sigma> c. rc), ret_bool = (\<lambda>\<sigma> c. b), ret_ptr = (\<lambda>\<sigma> c. p),
      out_ints = (\<lambda>\<sigma> c. (640, 480)), out_floats = (\<lambda>\<sigma> c. (1, 1)),
      out_ptr = (\<lambda>\<sigma> c old. p), out_ptrs = (\<lambda>\<sigma> c old. (p, p))\<rparr>"

text \<open>A library whose calls succeed (0) but for the one made after \<open>n\<close> earlier calls, which
  fails (-1): its answer depends on the history.\<close>

definition sdl_fail_at :: "nat \<Rightarrow> sdl" where
  "sdl_fail_at n =
     (sdl_const 0 SDL_FALSE 1)\<lparr>ret_int := (\<lambda>\<sigma> c. if length \<sigma> = n then - 1 else 0)\<rparr>"

text \<open>A library whose calls fail (-1) and store nothing: a handle slot keeps what it held.\<close>

definition sdl_fails_and_stores_nothing :: sdl where
  "sdl_fails_and_stores_nothing =
     (sdl_const (- 1) SDL_FALSE NULL)\<lparr>out_ptr := (\<lambda>\<sigma> c old. old), out_ptrs := (\<lambda>\<sigma> c old. old)\<rparr>"

text \<open>Objects to evaluate the model on.\<close>

definition r_ok :: Renderer where
  "r_ok = \<lparr>Renderer.renderer = 1, freeRenderer = True, error = 0\<rparr>"

definition r_failed :: Renderer where
  "r_failed = \<lparr>Renderer.renderer = 1, freeRenderer = True, error = - 1\<rparr>"

definition s_owned :: Surface where
  "s_owned = \<lparr>surface = 5, freeSurface = True\<rparr>"

definition s_borrowed :: Surface where
  "s_borrowed = \<lparr>surface = 5, freeSurface = False\<rparr>"

definition wnd_owned :: Window where
  "wnd_owned = \<lparr>window = 3, freeWindow = True, error = 0\<rparr>"

definition wnd_target :: Window where
  "wnd_target = \<lparr>window = 4, freeWindow = True, error = 0\<rparr>"

definition txt_owned :: Texture where
  "txt_owned = \<lparr>Texture.renderer = r_ok, texture = 7, freeTexture = True\<rparr>"

definition txt_null_owned :: Texture where
  "txt_null_owned = \<lparr>Texture.renderer = r_ok, texture = NULL, freeTexture = True\<rparr>"

section \<open>Properties\<close>

lemmas call_defs = call_void_def call_int_def call_bool_def call_ptr_def call_out_ints_def
  call_out_floats_def call_int_out_ints_def call_int_out_ptr_def call_int_out_ptrs_def

lemmas object_defs = r_ok_def r_failed_def s_owned_def s_borrowed_def wnd_owned_def wnd_target_def
  txt_owned_def txt_null_owned_def

lemma releases_append: "releases f p (\<sigma> @ \<tau>) = releases f p \<sigma> + releases f p \<tau>"
  by (induction \<sigma>) (simp_all add: releases_def)

lemma releases_Nil: "releases f p [] = 0"
  by (simp add: releases_def)

lemma releases_single: "releases f p [c] = (if c = Call f [P p] then 1 else 0)"
  by (simp add: releases_def)

lemma dtor_traces:
  "Surface_dtor s \<sigma> = \<sigma> @ (if freeSurface s then [Call SDL_FreeSurface [P (surface s)]] else [])"
  "Window_dtor wnd \<sigma> = \<sigma> @ (if freeWindow wnd then [Call SDL_DestroyWindow [P (window wnd)]] else [])"
  "Renderer_dtor r \<sigma> =
     \<sigma> @ (if freeRenderer r then [Call SDL_DestroyRenderer [P (Renderer.renderer r)]] else [])"
  "Texture_dtor txt \<sigma> = \<sigma> @ (if freeTexture txt then [Call SDL_DestroyTexture [P (texture txt)]] else [])"
  by (simp_all add: Surface_dtor_def Window_dtor_def Renderer_dtor_def Texture_dtor_def call_void_def)

subsection \<open>Destructors\<close>

text \<open>
  C2. For a Surface, a Window and a Renderer, the destructor makes exactly one call into the
  library, the release function on the wrapped handle, if and only if the ownership flag is
  true; it makes no call at all, and so leaves the handle untouched, if and only if the flag
  is false.
\<close>

theorem destructor_releases_iff_owned:
  "(Surface_dtor s \<sigma> = \<sigma> @ [Call SDL_FreeSurface [P (surface s)]] \<longleftrightarrow> freeSurface s)
   \<and> (Surface_dtor s \<sigma> = \<sigma> \<longleftrightarrow> \<not> freeSurface s)
   \<and> (Window_dtor wnd \<sigma> = \<sigma> @ [Call SDL_DestroyWindow [P (window wnd)]] \<longleftrightarrow> freeWindow wnd)
   \<and> (Window_dtor wnd \<sigma> = \<sigma> \<longleftrightarrow> \<not> freeWindow wnd)
   \<and> (Renderer_dtor r \<sigma> = \<sigma> @ [Call SDL_DestroyRenderer [P (Renderer.renderer r)]]
        \<longleftrightarrow> freeRenderer r)
   \<and> (Renderer_dtor r \<sigma> = \<sigma> \<longleftrightarrow> \<not> freeRenderer r)"
  by (simp add: Surface_dtor_def Window_dtor_def Renderer_dtor_def call_void_def)

theorem destructor_releases_iff_owned_witness:
  "Surface_dtor s_owned [] = [Call SDL_FreeSurface [P 5]] \<and> Surface_dtor s_borrowed [] = []
   \<and> Window_dtor wnd_owned [] = [Call SDL_DestroyWindow [P 3]]
   \<and> Renderer_dtor r_ok [] = [Call SDL_DestroyRenderer [P 1]]"
  using destructor_releases_iff_owned [of s_owned "[]" wnd_owned r_ok]
    destructor_releases_iff_owned [of s_borrowed "[]" wnd_owned r_ok]
  by (simp add: object_defs)

subsection \<open>The sticky error of Renderer\<close>

lemma Renderer_do_shape:
  "Renderer_do L op r \<sigma> =
     (r\<lparr>Renderer.error := Renderer.error r OR rop_code L op (Renderer.renderer r) \<sigma>\<rparr>,
      \<sigma> @ [rop_call op (Renderer.renderer r)])"
  by (cases op)
     (simp_all add: call_defs Renderer_SetScale_FPoint_def Renderer_SetScale_def
        Renderer_SetDrawColor_def Renderer_Clear_def Renderer_Flush_def Renderer_DrawOutline_def
        Renderer_DrawRect_def Renderer_Fill_def Renderer_FillRect_def Renderer_SetLogicalSize_def
        Renderer_SetIntegerScale_def Renderer_FillViewport_def Renderer_SetClipRect_def
        Renderer_DisableClip_def Renderer_SetTarget_def Renderer_IsClipEnabled_ref_def
        Renderer_GetOutputSize_ref_def Renderer_GetOutputSize_def Renderer_GetDriverInfo_def
        Renderer_chained_def)

lemma Renderer_run_shape:
  "Renderer_run L ops r \<sigma> =
     (r\<lparr>Renderer.error :=
          foldl (OR) (Renderer.error r) (Renderer_codes L ops (Renderer.renderer r) \<sigma>)\<rparr>,
      \<sigma> @ map (\<lambda>op. rop_call op (Renderer.renderer r)) ops)"
proof (induction ops arbitrary: r \<sigma>)
  case Nil
  show ?case by simp
next
  case (Cons op ops)
  show ?case
    by (simp add: Renderer_do_shape Cons.IH)
qed

lemma foldl_or_eq_0: "foldl (OR) (e :: cint) cs = 0 \<longleftrightarrow> e = 0 \<and> (\<forall>c \<in> set cs. c = 0)"
  by (induction cs arbitrary: e) (auto simp: or_eq_0_iff)

text \<open>
  C8. After any sequence of Renderer operations that OR their native call's return code into
  \<open>error\<close>, \<open>error\<close> is 0 if and only if it was 0 at the start and every native call of the
  sequence returned 0. So a non-zero \<open>error\<close> stays non-zero through any such sequence, and
  FlushError sets it back to 0.
\<close>

theorem Renderer_error_sticky:
  "(Renderer.error (fst (Renderer_run L ops r \<sigma>)) = 0 \<longleftrightarrow>
      Renderer.error r = 0 \<and> (\<forall>c \<in> set (Renderer_codes L ops (Renderer.renderer r) \<sigma>). c = 0))
   \<and> (Renderer.error r \<noteq> 0 \<longrightarrow> Renderer.error (fst (Renderer_run L ops r \<sigma>)) \<noteq> 0)
   \<and> Renderer.error (Renderer_FlushError (fst (Renderer_run L ops r \<sigma>))) = 0"
  by (simp add: Renderer_run_shape foldl_or_eq_0 Renderer_FlushError_def)

theorem Renderer_error_sticky_witness:
  "Renderer_codes (sdl_fail_at 7) [Clear, SetScale 1 1, Flush] (Renderer.renderer r_ok) [] = [0, 0, 0]
   \<and> Renderer.error r_ok = 0
   \<and> Renderer.error (fst (Renderer_run (sdl_fail_at 7) [Clear, SetScale 1 1, Flush] r_ok [])) = 0
   \<and> Renderer_codes (sdl_fail_at 1) [Clear, Chained SDL_RenderDrawPoint [I 2, I 3], Flush]
         (Renderer.renderer r_ok) [] = [0, - 1, 0]
   \<and> Renderer.error
         (fst (Renderer_run (sdl_fail_at 1) [Clear, Chained SDL_RenderDrawPoint [I 2, I 3], Flush] r_ok []))
       \<noteq> 0
   \<and> Renderer.error r_failed \<noteq> 0
   \<and> Renderer.error (fst (Renderer_run (sdl_fail_at 7) [Clear, Flush] r_failed [])) \<noteq> 0"
  using Renderer_error_sticky [of "sdl_fail_at 7" "[Clear, SetScale 1 1, Flush]" r_ok "[]"]
    Renderer_error_sticky
      [of "sdl_fail_at 1" "[Clear, Chained SDL_RenderDrawPoint [I 2, I 3], Flush]" r_ok "[]"]
    Renderer_error_sticky [of "sdl_fail_at 7" "[Clear, Flush]" r_failed "[]"]
  by (simp add: object_defs sdl_fail_at_def sdl_const_def)

subsection \<open>Ownership flag and null handle\<close>

text \<open>The guarded constructors and the conversions never own a null handle.\<close>

lemma owned_handle_nonnull_established:
  "freeSurface (Surface_ctor p free) \<longrightarrow> surface (Surface_ctor p free) \<noteq> NULL"
  "freeRenderer (Renderer_ctor p free e) \<longrightarrow> Renderer.renderer (Renderer_ctor p free e) \<noteq> NULL"
  "freeTexture (Texture_ctor rnd p free) \<longrightarrow> texture (Texture_ctor rnd p free) \<noteq> NULL"
  "freeSurface (fst (Surface_ConvertSurfaceFormat L s fmt flags \<sigma>))
     \<longrightarrow> surface (fst (Surface_ConvertSurfaceFormat L s fmt flags \<sigma>)) \<noteq> NULL"
  "freeRenderer (fst (Renderer_create L wnd flags index e \<sigma>))
     \<longrightarrow> Renderer.renderer (fst (Renderer_create L wnd flags index e \<sigma>)) \<noteq> NULL"
  by (simp_all add: Surface_ctor_def Renderer_ctor_def Texture_ctor_def
      Surface_ConvertSurfaceFormat_def Renderer_create_def call_defs)

text \<open>
  C3. Whenever the ownership flag of a wrapper object is true its handle is non-null, and every
  constructor and every operation that writes the handle or the flag keeps it so. The code breaks
  this: \<^verbatim>\<open>Surface::Duplicate\<close> sets \<^verbatim>\<open>freeSurface = true\<close> whatever the library returned, and the
  constructor \<^verbatim>\<open>Window(SDL_Window*, bool)\<close> stores \<^verbatim>\<open>free\<close> without looking at the handle, so a
  failed \<^verbatim>\<open>SDL_DuplicateSurface\<close> or \<^verbatim>\<open>SDL_CreateWindow\<close> (a null return) yields an object whose
  flag is true and whose handle is null.
\<close>

theorem Duplicate_owns_null_handle:
  "fst (Surface_Duplicate (sdl_const 0 SDL_FALSE NULL) s_owned []) = \<lparr>surface = NULL, freeSurface = True\<rparr>
   \<and> fst (Window_create (sdl_const 0 SDL_FALSE NULL) ''title'' (0, 0, 640, 480) 0 0 [])
       = \<lparr>window = NULL, freeWindow = True, error = 0\<rparr>
   \<and> Window_ctor NULL True 0 = \<lparr>window = NULL, freeWindow = True, error = 0\<rparr>"
  by (simp add: Surface_Duplicate_def Window_create_def Window_ctor_def Surface_ctor_def call_defs
      sdl_const_def object_defs)

subsection \<open>Move construction\<close>

text \<open>A Texture that owns a null handle arises from the public interface: \<^verbatim>\<open>GetTarget(Texture&)\<close>
  on an owning texture, when the renderer draws to its default target (a null
  \<^verbatim>\<open>SDL_GetRenderTarget\<close>), replaces the handle and leaves the flag.\<close>

lemma txt_null_owned_reachable:
  "Renderer_GetTarget_ref (sdl_const 0 SDL_FALSE NULL) r_ok txt_owned []
     = (r_ok, txt_null_owned, [Call SDL_DestroyTexture [P 7], Call SDL_GetRenderTarget [P 1]])"
  by (simp add: Renderer_GetTarget_ref_def Texture_dtor_def call_defs sdl_const_def object_defs)

text \<open>
  C4, as the claim states it, fails for Texture: the move constructor delegates to
  \<^verbatim>\<open>Texture(renderer, texture, free)\<close>, which stores \<^verbatim>\<open>free && texture != NULL\<close>, so the new
  object of a source that owns a null handle does not get the source's flag.
\<close>

theorem Texture_move_drops_flag_of_null_handle:
  "freeTexture (fst (Texture_move txt_null_owned)) \<noteq> freeTexture txt_null_owned"
  by (simp add: Texture_move_def Texture_ctor_def object_defs)

lemma Window_move_facts:
  "window (fst (Window_move wnd e)) = window wnd"
  "freeWindow (fst (Window_move wnd e)) = freeWindow wnd"
  "freeWindow (snd (Window_move wnd e)) = False"
  "window (snd (Window_move wnd e)) = NULL"
  "releases SDL_DestroyWindow p (Window_dtor (snd (Window_move wnd e)) (Window_dtor (fst (Window_move wnd e)) \<sigma>))
        \<le> releases SDL_DestroyWindow p \<sigma> + 1"
  "releases SDL_DestroyWindow p (Window_dtor (fst (Window_move wnd e)) (Window_dtor (snd (Window_move wnd e)) \<sigma>))
        \<le> releases SDL_DestroyWindow p \<sigma> + 1"
  by (simp_all add: Window_move_def Window_ctor_def dtor_traces releases_append releases_single
      releases_Nil)

lemma Renderer_move_facts:
  "Renderer.renderer (fst (Renderer_move r e)) = Renderer.renderer r"
  "freeRenderer (fst (Renderer_move r e)) = freeRenderer r"
  "freeRenderer (snd (Renderer_move r e)) = False"
  "Renderer.renderer (snd (Renderer_move r e)) = Renderer.renderer r"
  "releases SDL_DestroyRenderer p (Renderer_dtor (snd (Renderer_move r e)) (Renderer_dtor (fst (Renderer_move r e)) \<sigma>))
        \<le> releases SDL_DestroyRenderer p \<sigma> + 1"
  "releases SDL_DestroyRenderer p (Renderer_dtor (fst (Renderer_move r e)) (Renderer_dtor (snd (Renderer_move r e)) \<sigma>))
        \<le> releases SDL_DestroyRenderer p \<sigma> + 1"
  by (simp_all add: Renderer_move_def dtor_traces releases_append releases_single releases_Nil)

lemma Texture_move_facts:
  "texture (fst (Texture_move txt)) = texture txt"
  "freeTexture (fst (Texture_move txt)) = (freeTexture txt \<and> texture txt \<noteq> NULL)"
  "freeTexture (snd (Texture_move txt)) = False"
  "texture (snd (Texture_move txt)) = texture txt"
  "releases SDL_DestroyTexture p (Texture_dtor (snd (Texture_move txt)) (Texture_dtor (fst (Texture_move txt)) \<sigma>))
        \<le> releases SDL_DestroyTexture p \<sigma> + 1"
  "releases SDL_DestroyTexture p (Texture_dtor (fst (Texture_move txt)) (Texture_dtor (snd (Texture_move txt)) \<sigma>))
        \<le> releases SDL_DestroyTexture p \<sigma> + 1"
  by (simp_all add: Texture_move_def Texture_ctor_def dtor_traces releases_append releases_single
      releases_Nil)

text \<open>
  C4, amended. After move construction the new wrapper holds the source's handle. A new Window
  or Renderer holds the source's former ownership flag; a new Texture holds it only when the
  handle is non-null, and false otherwise. The source's ownership flag is false afterwards (a
  Window source also has its handle set to null; a Renderer or Texture source keeps its
  handle). So destroying both objects, in either order, releases any handle at most once.
\<close>

theorem move_transfers_ownership:
  "window (fst (Window_move wnd e)) = window wnd
   \<and> freeWindow (fst (Window_move wnd e)) = freeWindow wnd
   \<and> freeWindow (snd (Window_move wnd e)) = False
   \<and> window (snd (Window_move wnd e)) = NULL
   \<and> releases SDL_DestroyWindow p (Window_dtor (snd (Window_move wnd e)) (Window_dtor (fst (Window_move wnd e)) \<sigma>))
        \<le> releases SDL_DestroyWindow p \<sigma> + 1
   \<and> releases SDL_DestroyWindow p (Window_dtor (fst (Window_move wnd e)) (Window_dtor (snd (Window_move wnd e)) \<sigma>))
        \<le> releases SDL_DestroyWindow p \<sigma> + 1
   \<and> Renderer.renderer (fst (Renderer_move r e)) = Renderer.renderer r
   \<and> freeRenderer (fst (Renderer_move r e)) = freeRenderer r
   \<and> freeRenderer (snd (Renderer_move r e)) = False
   \<and> Renderer.renderer (snd (Renderer_move r e)) = Renderer.renderer r
   \<and> releases SDL_DestroyRenderer p (Renderer_dtor (snd (Renderer_move r e)) (Renderer_dtor (fst (Renderer_move r e)) \<sigma>))
        \<le> releases SDL_DestroyRenderer p \<sigma> + 1
   \<and> releases SDL_DestroyRenderer p (Renderer_dtor (fst (Renderer_move r e)) (Renderer_dtor (snd (Renderer_move r e)) \<sigma>))
        \<le> releases SDL_DestroyRenderer p \<sigma> + 1
   \<and> texture (fst (Texture_move txt)) = texture txt
   \<and> freeTexture (fst (Texture_move txt)) = (freeTexture txt \<and> texture txt \<noteq> NULL)
   \<and> freeTexture (snd (Texture_move txt)) = False
   \<and> texture (snd (Texture_move txt)) = texture txt
   \<and> releases SDL_DestroyTexture p (Texture_dtor (snd (Texture_move txt)) (Texture_dtor (fst (Texture_move txt)) \<sigma>))
        \<le> releases SDL_DestroyTexture p \<sigma> + 1
   \<and> releases SDL_DestroyTexture p (Texture_dtor (fst (Texture_move txt)) (Texture_dtor (snd (Texture_move txt)) \<sigma>))
        \<le> releases SDL_DestroyTexture p \<sigma> + 1"
  by (intro conjI Window_move_facts Renderer_move_facts Texture_move_facts)

subsection \<open>The two overloads of a getter\<close>

text \<open>The by-value overload and the reference overload of these getters give the same value.\<close>

lemma getter_overloads_agree:
  "fst (snd (Window_GetSize_ref L wnd size0 \<sigma>)) = fst (Window_GetSize L wnd \<sigma>)"
  "fst (snd (Window_GetFlags_ref L wnd flags0 \<sigma>)) = fst (Window_GetFlags L wnd \<sigma>)"
  "fst (snd (Window_GetGrab_ref L wnd grab0 \<sigma>)) = fst (Window_GetGrab L wnd \<sigma>)"
  "surface (fst (snd (Window_GetSurface_ref L wnd s \<sigma>))) = surface (fst (Window_GetSurface L wnd (Surface_dtor s \<sigma>)))"
  "fst (snd (Renderer_GetScale_ref L r scale0 \<sigma>)) = fst (Renderer_GetScale L r \<sigma>)"
  "fst (snd (Renderer_GetScale_refs L r sx sy \<sigma>)) = fst (Renderer_GetScale L r \<sigma>)"
  "fst (snd (Renderer_GetOutputSize_ref L r size0 \<sigma>)) = fst (Renderer_GetOutputSize L r \<sigma>)"
  "fst (snd (Renderer_TargetSupported_ref L r b0 \<sigma>)) = fst (Renderer_TargetSupported L r \<sigma>)"
  "fst (snd (Renderer_GetIntegerScale_ref L r b0 \<sigma>)) = fst (Renderer_GetIntegerScale L r \<sigma>)"
  by (simp_all add: Window_GetSize_ref_def Window_GetSize_def Window_GetFlags_ref_def Window_GetFlags_def
      Window_GetGrab_ref_def Window_GetGrab_def Window_GetSurface_ref_def Window_GetSurface_def
      Renderer_GetScale_ref_def Renderer_GetScale_refs_def Renderer_GetScale_def
      Renderer_GetOutputSize_ref_def Renderer_GetOutputSize_def Renderer_TargetSupported_ref_def
      Renderer_TargetSupported_def Renderer_GetIntegerScale_ref_def Renderer_GetIntegerScale_def
      Surface_ctor_def call_defs split_def Let_def)

text \<open>
  C5. The reference overload of a getter yields the value the by-value overload returns. The
  code breaks this for \<^verbatim>\<open>Renderer::IsClipEnabled(bool& enabled)\<close>: its body ORs the library's
  answer into \<open>error\<close> and never assigns \<^verbatim>\<open>enabled\<close>. With clipping enabled, the by-value overload
  returns true, the reference overload leaves a false \<^verbatim>\<open>enabled\<close> false and sets \<open>error\<close> to 1.
\<close>

theorem IsClipEnabled_ref_leaves_parameter:
  "fst (Renderer_IsClipEnabled (sdl_const 0 SDL_TRUE 1) r_ok []) = True
   \<and> fst (snd (Renderer_IsClipEnabled_ref (sdl_const 0 SDL_TRUE 1) r_ok False [])) = False
   \<and> Renderer.error (fst (Renderer_IsClipEnabled_ref (sdl_const 0 SDL_TRUE 1) r_ok False [])) = 1"
  by (simp add: Renderer_IsClipEnabled_def Renderer_IsClipEnabled_ref_def call_defs sdl_const_def
      object_defs)

subsection \<open>Copy construction\<close>



subsection \<open>Out-parameter overloads that replace a wrapper object\<close>

text \<open>What each of these overloads does, in order: the release of what the object owned (if it
  owned anything), the native call, the handle left in the object, and the flag.\<close>

lemma Window_GetSurface_ref_facts:
  "snd (snd (Window_GetSurface_ref L wnd s \<sigma>)) =
      \<sigma> @ (if freeSurface s then [Call SDL_FreeSurface [P (surface s)]] else [])
        @ [Call SDL_GetWindowSurface [P (window wnd)]]"
  "surface (fst (snd (Window_GetSurface_ref L wnd s \<sigma>))) =
      ret_ptr L (Surface_dtor s \<sigma>) (Call SDL_GetWindowSurface [P (window wnd)])"
  "freeSurface (fst (snd (Window_GetSurface_ref L wnd s \<sigma>))) = False"
  by (simp_all add: Window_GetSurface_ref_def call_defs Let_def dtor_traces)

lemma Texture_LockRectToSurface_facts:
  "snd (snd (Texture_LockRectToSurface L txt rect s \<sigma>)) =
      \<sigma> @ (if freeSurface s then [Call SDL_FreeSurface [P (surface s)]] else [])
        @ [Call SDL_LockTextureToSurface [P (texture txt), R (Some rect)]]"
  "surface (fst (snd (Texture_LockRectToSurface L txt rect s \<sigma>))) =
      out_ptr L (Surface_dtor s \<sigma>) (Call SDL_LockTextureToSurface [P (texture txt), R (Some rect)])
        (surface s)"
  "freeSurface (fst (snd (Texture_LockRectToSurface L txt rect s \<sigma>))) =
      (surface (fst (snd (Texture_LockRectToSurface L txt rect s \<sigma>))) \<noteq> NULL)"
  "fst (Texture_LockRectToSurface L txt rect s \<sigma>) =
      ret_int L (Surface_dtor s \<sigma>) (Call SDL_LockTextureToSurface [P (texture txt), R (Some rect)])"
  by (simp_all add: Texture_LockRectToSurface_def call_defs Let_def dtor_traces)

lemma Texture_LockToSurface_facts:
  "snd (snd (Texture_LockToSurface L txt s \<sigma>)) =
      \<sigma> @ (if freeSurface s then [Call SDL_FreeSurface [P (surface s)]] else [])
        @ [Call SDL_LockTextureToSurface [P (texture txt), R None]]"
  "surface (fst (snd (Texture_LockToSurface L txt s \<sigma>))) =
      out_ptr L (Surface_dtor s \<sigma>) (Call SDL_LockTextureToSurface [P (texture txt), R None])
        (surface s)"
  "freeSurface (fst (snd (Texture_LockToSurface L txt s \<sigma>))) =
      (surface (fst (snd (Texture_LockToSurface L txt s \<sigma>))) \<noteq> NULL)"
  "fst (Texture_LockToSurface L txt s \<sigma>) =
      ret_int L (Surface_dtor s \<sigma>) (Call SDL_LockTextureToSurface [P (texture txt), R None])"
  by (simp_all add: Texture_LockToSurface_def call_defs Let_def dtor_traces)

lemma CreateWindowAndRenderer_facts:
  "snd (snd (snd (CreateWindowAndRenderer L size0 wnd rnd window_flags \<sigma>))) =
      \<sigma> @ (if freeWindow wnd then [Call SDL_DestroyWindow [P (window wnd)]] else [])
        @ (if freeRenderer rnd then [Call SDL_DestroyRenderer [P (Renderer.renderer rnd)]] else [])
        @ [Call SDL_CreateWindowAndRenderer [I (fst size0), I (snd size0), U window_flags]]"
  "(window (fst (snd (CreateWindowAndRenderer L size0 wnd rnd window_flags \<sigma>))),
    Renderer.renderer (fst (snd (snd (CreateWindowAndRenderer L size0 wnd rnd window_flags \<sigma>))))) =
      out_ptrs L (Renderer_dtor rnd (Window_dtor wnd \<sigma>))
        (Call SDL_CreateWindowAndRenderer [I (fst size0), I (snd size0), U window_flags])
        (window wnd, Renderer.renderer rnd)"
  "freeWindow (fst (snd (CreateWindowAndRenderer L size0 wnd rnd window_flags \<sigma>))) =
      (window (fst (snd (CreateWindowAndRenderer L size0 wnd rnd window_flags \<sigma>))) \<noteq> NULL)"
  "freeRenderer (fst (snd (snd (CreateWindowAndRenderer L size0 wnd rnd window_flags \<sigma>)))) =
      (Renderer.renderer (fst (snd (snd (CreateWindowAndRenderer L size0 wnd rnd window_flags \<sigma>))))
         \<noteq> NULL)"
  by (simp_all add: CreateWindowAndRenderer_def call_defs Let_def dtor_traces split_def)

lemma Renderer_GetTarget_ref_facts:
  "snd (snd (Renderer_GetTarget_ref L r txt \<sigma>)) =
      \<sigma> @ (if freeTexture txt then [Call SDL_DestroyTexture [P (texture txt)]] else [])
        @ [Call SDL_GetRenderTarget [P (Renderer.renderer r)]]"
  "texture (fst (snd (Renderer_GetTarget_ref L r txt \<sigma>))) =
      ret_ptr L (Texture_dtor txt \<sigma>) (Call SDL_GetRenderTarget [P (Renderer.renderer r)])"
  "freeTexture (fst (snd (Renderer_GetTarget_ref L r txt \<sigma>))) = freeTexture txt"
  by (simp_all add: Renderer_GetTarget_ref_def call_defs Let_def dtor_traces)

text \<open>
  C9. An out-parameter overload that replaces a wrapper object first releases what the object
  owned, then installs the new handle and sets the ownership flag so that the caller cannot
  release a handle twice. The order and the flags are as the lemmas above state, but the
  conclusion fails in two places. When \<^verbatim>\<open>SDL_LockTextureToSurface\<close> fails it stores nothing, and
  the slot still holds the handle the destructor has just released (the destructor does not
  clear the member): \<^verbatim>\<open>LockToSurface\<close> and \<^verbatim>\<open>LockRectToSurface\<close> then compute the flag from
  \<^verbatim>\<open>surface.surface != NULL\<close>, true, and the destructor the caller runs later releases handle 5 a
  second time. \<^verbatim>\<open>Renderer::GetTarget(Texture&)\<close> runs the destructor, installs the render target
  and never writes \<^verbatim>\<open>freeTexture\<close>: an owning texture that is itself the render target (handle 7)
  is destroyed by the call and again by its destructor.
\<close>

theorem out_parameter_overloads_double_release:
  "Texture_LockToSurface sdl_fails_and_stores_nothing txt_owned s_owned [] =
      (- 1, s_owned, [Call SDL_FreeSurface [P 5], Call SDL_LockTextureToSurface [P 7, R None]])
   \<and> releases SDL_FreeSurface 5
        (Surface_dtor (fst (snd (Texture_LockToSurface sdl_fails_and_stores_nothing txt_owned s_owned [])))
           (snd (snd (Texture_LockToSurface sdl_fails_and_stores_nothing txt_owned s_owned [])))) = 2
   \<and> Texture_LockRectToSurface sdl_fails_and_stores_nothing txt_owned (0, 0, 8, 8) s_owned [] =
      (- 1, s_owned,
       [Call SDL_FreeSurface [P 5], Call SDL_LockTextureToSurface [P 7, R (Some (0, 0, 8, 8))]])
   \<and> releases SDL_FreeSurface 5
        (Surface_dtor
           (fst (snd (Texture_LockRectToSurface sdl_fails_and_stores_nothing txt_owned (0, 0, 8, 8) s_owned [])))
           (snd (snd (Texture_LockRectToSurface sdl_fails_and_stores_nothing txt_owned (0, 0, 8, 8) s_owned []))))
       = 2
   \<and> Renderer_GetTarget_ref (sdl_const 0 SDL_FALSE 7) r_ok txt_owned [] =
      (r_ok, txt_owned, [Call SDL_DestroyTexture [P 7], Call SDL_GetRenderTarget [P 1]])
   \<and> releases SDL_DestroyTexture 7
        (Texture_dtor (fst (snd (Renderer_GetTarget_ref (sdl_const 0 SDL_FALSE 7) r_ok txt_owned [])))
           (snd (snd (Renderer_GetTarget_ref (sdl_const 0 SDL_FALSE 7) r_ok txt_owned [])))) = 2"
  by (simp add: Texture_LockToSurface_def Texture_LockRectToSurface_def Renderer_GetTarget_ref_def
      Surface_dtor_def Texture_dtor_def call_defs sdl_fails_and_stores_nothing_def sdl_const_def
      object_defs releases_def)

subsection \<open>Assignment\<close>

text \<open>\<^verbatim>\<open>std::swap\<close> on two Renderer objects exchanges their handles and their ownership flags, leaves
  each object its own \<open>error\<close>, and releases nothing.\<close>

lemma Renderer_swap_result:
  "Renderer_swap a b e \<sigma> =
     ((a\<lparr>Renderer.renderer := Renderer.renderer b, freeRenderer := freeRenderer b\<rparr>,
       b\<lparr>Renderer.renderer := Renderer.renderer a, freeRenderer := freeRenderer a\<rparr>), \<sigma>)"
  by (simp add: Renderer_swap_def Renderer_move_def Renderer_assign_def Renderer_dtor_def Let_def)

text \<open>
  C10, as the claim states it, fails at \<^verbatim>\<open>a = b\<close> for an owning lvalue \<^verbatim>\<open>b\<close>: the by-value parameter
  is a copy of \<^verbatim>\<open>b\<close>, a non-owning alias, so the target ends with \<^verbatim>\<open>b\<close>'s handle and a false
  ownership flag, not with \<^verbatim>\<open>b\<close>'s flag.
\<close>

theorem copy_assignment_drops_ownership_flag:
  "window (fst (Window_assign wnd_target (fst (Window_copy wnd_owned 0)) [])) = window wnd_owned
   \<and> freeWindow (fst (Window_assign wnd_target (fst (Window_copy wnd_owned 0)) []))
        \<noteq> freeWindow wnd_owned"
  by (simp add: Window_assign_def Window_copy_def Window_ctor_def Let_def object_defs)

lemma Window_assign_facts:
  "window (fst (Window_assign wnd that\<^sub>w \<sigma>)) = window that\<^sub>w"
  "freeWindow (fst (Window_assign wnd that\<^sub>w \<sigma>)) = freeWindow that\<^sub>w"
  "snd (Window_assign wnd that\<^sub>w \<sigma>) =
      \<sigma> @ (if freeWindow wnd then [Call SDL_DestroyWindow [P (window wnd)]] else [])"
  "window (fst (Window_assign wnd (fst (Window_copy b\<^sub>w e)) \<sigma>)) = window b\<^sub>w"
  "freeWindow (fst (Window_assign wnd (fst (Window_copy b\<^sub>w e)) \<sigma>)) = False"
  "snd (Window_copy b\<^sub>w e) = b\<^sub>w"
  "window (fst (Window_assign wnd (fst (Window_move b\<^sub>w e)) \<sigma>)) = window b\<^sub>w"
  "freeWindow (fst (Window_assign wnd (fst (Window_move b\<^sub>w e)) \<sigma>)) = freeWindow b\<^sub>w"
  "freeWindow (snd (Window_move b\<^sub>w e)) = False"
  "window (fst (Window_assign wnd (fst (Window_copy wnd e)) \<sigma>)) = window wnd"
  "releases SDL_DestroyWindow p
      (Window_dtor (fst (Window_assign wnd (fst (Window_copy wnd e)) \<sigma>))
         (snd (Window_assign wnd (fst (Window_copy wnd e)) \<sigma>)))
     = releases SDL_DestroyWindow p \<sigma> + (if freeWindow wnd \<and> p = window wnd then 1 else 0)"
  by (simp_all add: Window_assign_def Window_copy_def Window_move_def Window_ctor_def Let_def dtor_traces
      releases_append releases_single releases_Nil split_def)

lemma Renderer_assign_facts:
  "Renderer.renderer (fst (Renderer_assign r that\<^sub>r \<sigma>)) = Renderer.renderer that\<^sub>r"
  "freeRenderer (fst (Renderer_assign r that\<^sub>r \<sigma>)) = freeRenderer that\<^sub>r"
  "snd (Renderer_assign r that\<^sub>r \<sigma>) =
      \<sigma> @ (if freeRenderer r then [Call SDL_DestroyRenderer [P (Renderer.renderer r)]] else [])"
  "Renderer.renderer (fst (Renderer_assign r (fst (Renderer_copy free0 b\<^sub>r e)) \<sigma>)) = Renderer.renderer b\<^sub>r"
  "freeRenderer (fst (Renderer_assign r (fst (Renderer_copy free0 b\<^sub>r e)) \<sigma>)) = free0"
  "snd (Renderer_copy free0 b\<^sub>r e) = b\<^sub>r"
  "Renderer.renderer (fst (Renderer_assign r (fst (Renderer_move b\<^sub>r e)) \<sigma>)) = Renderer.renderer b\<^sub>r"
  "freeRenderer (fst (Renderer_assign r (fst (Renderer_move b\<^sub>r e)) \<sigma>)) = freeRenderer b\<^sub>r"
  "freeRenderer (snd (Renderer_move b\<^sub>r e)) = False"
  "Renderer.renderer (fst (Renderer_assign r (fst (Renderer_copy free0 r e)) \<sigma>)) = Renderer.renderer r"
  "releases SDL_DestroyRenderer p
      (Renderer_dtor (fst (Renderer_assign r (fst (Renderer_copy free0 r e)) \<sigma>))
         (snd (Renderer_assign r (fst (Renderer_copy free0 r e)) \<sigma>)))
     = releases SDL_DestroyRenderer p \<sigma> + (if freeRenderer r \<and> p = Renderer.renderer r then 1 else 0)
         + (if free0 \<and> p = Renderer.renderer r then 1 else 0)"
  by (simp_all add: Renderer_assign_def Renderer_copy_def Renderer_move_def Let_def dtor_traces
      releases_append releases_single releases_Nil split_def)

lemma Texture_assign_facts:
  "texture (fst (Texture_assign txt that\<^sub>t e \<sigma>)) = texture that\<^sub>t"
  "freeTexture (fst (Texture_assign txt that\<^sub>t e \<sigma>)) = freeTexture that\<^sub>t"
  "snd (Texture_assign txt that\<^sub>t e \<sigma>) =
      \<sigma> @ (if freeTexture txt then [Call SDL_DestroyTexture [P (texture txt)]] else [])"
  "texture (fst (Texture_assign txt (fst (Texture_copy b\<^sub>t)) e \<sigma>)) = texture b\<^sub>t"
  "freeTexture (fst (Texture_assign txt (fst (Texture_copy b\<^sub>t)) e \<sigma>)) = False"
  "snd (Texture_copy b\<^sub>t) = b\<^sub>t"
  "texture (fst (Texture_assign txt (fst (Texture_move b\<^sub>t)) e \<sigma>)) = texture b\<^sub>t"
  "freeTexture (fst (Texture_assign txt (fst (Texture_move b\<^sub>t)) e \<sigma>)) = (freeTexture b\<^sub>t \<and> texture b\<^sub>t \<noteq> NULL)"
  "freeTexture (snd (Texture_move b\<^sub>t)) = False"
  "texture (fst (Texture_assign txt (fst (Texture_copy txt)) e \<sigma>)) = texture txt"
  "releases SDL_DestroyTexture p
      (Texture_dtor (fst (Texture_assign txt (fst (Texture_copy txt)) e \<sigma>))
         (snd (Texture_assign txt (fst (Texture_copy txt)) e \<sigma>)))
     = releases SDL_DestroyTexture p \<sigma> + (if freeTexture txt \<and> p = texture txt then 1 else 0)"
  by (simp_all add: Texture_assign_def Texture_copy_def Texture_move_def Texture_ctor_def Renderer_swap_result Let_def dtor_traces
      releases_append releases_single releases_Nil split_def)

text \<open>The first swap of \<^verbatim>\<open>Texture::operator=\<close> gives the \<^verbatim>\<open>renderer\<close> member of the target the handle
  and the flag of the parameter's, and leaves it its own \<open>error\<close>.\<close>

lemma Texture_assign_renderer_member:
  "Texture.renderer (fst (Texture_assign txt that\<^sub>t e \<sigma>)) =
     (Texture.renderer txt)\<lparr>Renderer.renderer := Renderer.renderer (Texture.renderer that\<^sub>t),
                             freeRenderer := freeRenderer (Texture.renderer that\<^sub>t)\<rparr>"
  by (simp add: Texture_assign_def Renderer_swap_result Let_def)

text \<open>
  C10, amended. Assignment of a Window, a Renderer or a Texture swaps the handle and the
  ownership flag with the by-value parameter \<open>that\<close> and then destroys the parameter. Afterwards
  the target holds the parameter's handle and flag, and the library's history has grown by
  exactly one release call, on the handle the target held before, when the target owned it, and
  by nothing otherwise. For \<^verbatim>\<open>a = b\<close> with an lvalue \<^verbatim>\<open>b\<close> the parameter is a copy of \<^verbatim>\<open>b\<close>: the target
  holds \<^verbatim>\<open>b\<close>'s handle with the flag the copy constructor gives (false for Window and Texture, the
  default member initialiser \<open>free0\<close> of \<^verbatim>\<open>freeRenderer\<close> for Renderer), and \<^verbatim>\<open>b\<close> is unchanged. For
  \<^verbatim>\<open>a = std::move(b)\<close> the target holds \<^verbatim>\<open>b\<close>'s handle and \<^verbatim>\<open>b\<close>'s former flag (for Texture only when
  the handle is non-null), and \<^verbatim>\<open>b\<close>'s flag is false. Self-assignment leaves the object holding
  its original handle; after it, the destruction of the object included, the handle has been
  released once if the object owned it and not at all otherwise (for Renderer once more if
  \<open>free0\<close> is true, so never twice when that initialiser is false).
\<close>

theorem assignment_is_copy_and_swap:
  "window (fst (Window_assign wnd that\<^sub>w \<sigma>)) = window that\<^sub>w
   \<and> freeWindow (fst (Window_assign wnd that\<^sub>w \<sigma>)) = freeWindow that\<^sub>w
   \<and> snd (Window_assign wnd that\<^sub>w \<sigma>) =
       \<sigma> @ (if freeWindow wnd then [Call SDL_DestroyWindow [P (window wnd)]] else [])
   \<and> window (fst (Window_assign wnd (fst (Window_copy b\<^sub>w e)) \<sigma>)) = window b\<^sub>w
   \<and> freeWindow (fst (Window_assign wnd (fst (Window_copy b\<^sub>w e)) \<sigma>)) = False
   \<and> snd (Window_copy b\<^sub>w e) = b\<^sub>w
   \<and> window (fst (Window_assign wnd (fst (Window_move b\<^sub>w e)) \<sigma>)) = window b\<^sub>w
   \<and> freeWindow (fst (Window_assign wnd (fst (Window_move b\<^sub>w e)) \<sigma>)) = freeWindow b\<^sub>w
   \<and> freeWindow (snd (Window_move b\<^sub>w e)) = False
   \<and> window (fst (Window_assign wnd (fst (Window_copy wnd e)) \<sigma>)) = window wnd
   \<and> releases SDL_DestroyWindow p
       (Window_dtor (fst (Window_assign wnd (fst (Window_copy wnd e)) \<sigma>))
       (snd (Window_assign wnd (fst (Window_copy wnd e)) \<sigma>)))
       = releases SDL_DestroyWindow p \<sigma> + (if freeWindow wnd \<and> p = window wnd then 1 else 0)
   \<and> Renderer.renderer (fst (Renderer_assign r that\<^sub>r \<sigma>)) = Renderer.renderer that\<^sub>r
   \<and> freeRenderer (fst (Renderer_assign r that\<^sub>r \<sigma>)) = freeRenderer that\<^sub>r
   \<and> snd (Renderer_assign r that\<^sub>r \<sigma>) =
       \<sigma> @ (if freeRenderer r then [Call SDL_DestroyRenderer [P (Renderer.renderer r)]] else [])
   \<and> Renderer.renderer (fst (Renderer_assign r (fst (Renderer_copy free0 b\<^sub>r e)) \<sigma>)) = Renderer.renderer b\<^sub>r
   \<and> freeRenderer (fst (Renderer_assign r (fst (Renderer_copy free0 b\<^sub>r e)) \<sigma>)) = free0
   \<and> snd (Renderer_copy free0 b\<^sub>r e) = b\<^sub>r
   \<and> Renderer.renderer (fst (Renderer_assign r (fst (Renderer_move b\<^sub>r e)) \<sigma>)) = Renderer.renderer b\<^sub>r
   \<and> freeRenderer (fst (Renderer_assign r (fst (Renderer_move b\<^sub>r e)) \<sigma>)) = freeRenderer b\<^sub>r
   \<and> freeRenderer (snd (Renderer_move b\<^sub>r e)) = False
   \<and> Renderer.renderer (fst (Renderer_assign r (fst (Renderer_copy free0 r e)) \<sigma>)) = Renderer.renderer r
   \<and> releases SDL_DestroyRenderer p
       (Renderer_dtor (fst (Renderer_assign r (fst (Renderer_copy free0 r e)) \<sigma>))
       (snd (Renderer_assign r (fst (Renderer_copy free0 r e)) \<sigma>)))
       = releases SDL_DestroyRenderer p \<sigma> + (if freeRenderer r \<and> p = Renderer.renderer r then 1 else 0)
       + (if free0 \<and> p = Renderer.renderer r then 1 else 0)
   \<and> texture (fst (Texture_assign txt that\<^sub>t e \<sigma>)) = texture that\<^sub>t
   \<and> freeTexture (fst (Texture_assign txt that\<^sub>t e \<sigma>)) = freeTexture that\<^sub>t
   \<and> snd (Texture_assign txt that\<^sub>t e \<sigma>) =
       \<sigma> @ (if freeTexture txt then [Call SDL_DestroyTexture [P (texture txt)]] else [])
   \<and> texture (fst (Texture_assign txt (fst (Texture_copy b\<^sub>t)) e \<sigma>)) = texture b\<^sub>t
   \<and> freeTexture (fst (Texture_assign txt (fst (Texture_copy b\<^sub>t)) e \<sigma>)) = False
   \<and> snd (Texture_copy b\<^sub>t) = b\<^sub>t
   \<and> texture (fst (Texture_assign txt (fst (Texture_move b\<^sub>t)) e \<sigma>)) = texture b\<^sub>t
   \<and> freeTexture (fst (Texture_assign txt (fst (Texture_move b\<^sub>t)) e \<sigma>)) = (freeTexture b\<^sub>t \<and> texture b\<^sub>t \<noteq> NULL)
   \<and> freeTexture (snd (Texture_move b\<^sub>t)) = False
   \<and> texture (fst (Texture_assign txt (fst (Texture_copy txt)) e \<sigma>)) = texture txt
   \<and> releases SDL_DestroyTexture p
       (Texture_dtor (fst (Texture_assign txt (fst (Texture_copy txt)) e \<sigma>))
       (snd (Texture_assign txt (fst (Texture_copy txt)) e \<sigma>)))
       = releases SDL_DestroyTexture p \<sigma> + (if freeTexture txt \<and> p = texture txt then 1 else 0)"
  by (intro conjI Window_assign_facts Renderer_assign_facts Texture_assign_facts)

subsection \<open>The stored fields of a wrapper\<close>

text \<open>
  C7, as the claim states it, fails: Window and Renderer store an \<open>error\<close> field besides the
  handle and the flag. FlushError writes it; Clear reads it (two renderers that differ in
  \<open>error\<close> alone give different results); UpdateSurface writes Window's.
\<close>

theorem operations_read_and_write_error:
  "Renderer.error (Renderer_FlushError r_failed) \<noteq> Renderer.error r_failed
   \<and> Renderer.renderer r_failed = Renderer.renderer r_ok
   \<and> freeRenderer r_failed = freeRenderer r_ok
   \<and> fst (Renderer_Clear (sdl_const 0 SDL_FALSE 1) r_failed [])
        \<noteq> fst (Renderer_Clear (sdl_const 0 SDL_FALSE 1) r_ok [])
   \<and> Window.error (fst (Window_UpdateSurface (sdl_const (- 1) SDL_FALSE 1) wnd_owned []))
        \<noteq> Window.error wnd_owned"
  by (simp add: Renderer_FlushError_def Renderer_Clear_def Window_UpdateSurface_def call_defs
      sdl_const_def object_defs)

text \<open>The fields of each wrapper.\<close>

lemma wrapper_fields:
  "(s :: Surface) = \<lparr>surface = surface s, freeSurface = freeSurface s\<rparr>"
  "(wnd :: Window) = \<lparr>window = window wnd, freeWindow = freeWindow wnd, error = Window.error wnd\<rparr>"
  "(r :: Renderer) =
     \<lparr>Renderer.renderer = Renderer.renderer r, freeRenderer = freeRenderer r, error = Renderer.error r\<rparr>"
  "(txt :: Texture) =
     \<lparr>Texture.renderer = Texture.renderer txt, texture = texture txt, freeTexture = freeTexture txt\<rparr>"
  by simp_all

text \<open>What the chaining methods return: the object, with the native return code in \<open>error\<close>.\<close>

lemma chained_results:
  "fst (Renderer_SetScale_FPoint L r scale \<sigma>) =
     r\<lparr>Renderer.error := Renderer.error r OR
         ret_int L \<sigma> (Call SDL_RenderSetScale [P (Renderer.renderer r), F (fst scale), F (snd scale)])\<rparr>"
  "fst (Renderer_SetScale L r scaleX scaleY \<sigma>) =
     r\<lparr>Renderer.error := Renderer.error r OR
         ret_int L \<sigma> (Call SDL_RenderSetScale [P (Renderer.renderer r), F scaleX, F scaleY])\<rparr>"
  "fst (Renderer_Clear L r \<sigma>) =
     r\<lparr>Renderer.error := Renderer.error r OR
         ret_int L \<sigma> (Call SDL_RenderClear [P (Renderer.renderer r)])\<rparr>"
  "fst (Renderer_Flush L r \<sigma>) =
     r\<lparr>Renderer.error := Renderer.error r OR
         ret_int L \<sigma> (Call SDL_RenderFlush [P (Renderer.renderer r)])\<rparr>"
  "fst (Renderer_chained L r f as \<sigma>) =
     r\<lparr>Renderer.error := Renderer.error r OR ret_int L \<sigma> (Call f (P (Renderer.renderer r) # as))\<rparr>"
  "fst (Window_UpdateSurface L wnd \<sigma>) =
     wnd\<lparr>Window.error := ret_int L \<sigma> (Call SDL_UpdateWindowSurface [P (window wnd)])\<rparr>"
  "fst (Window_SetBrightness L wnd brightness \<sigma>) =
     wnd\<lparr>Window.error := ret_int L \<sigma> (Call SDL_SetWindowBrightness [P (window wnd), F brightness])\<rparr>"
  by (simp_all add: Renderer_SetScale_FPoint_def Renderer_SetScale_def Renderer_Clear_def
      Renderer_Flush_def Renderer_chained_def Window_UpdateSurface_def Window_SetBrightness_def
      call_defs)

lemma FlushError_result: "Renderer_FlushError r = r\<lparr>Renderer.error := 0\<rparr>"
  by (simp add: Renderer_FlushError_def)

lemma Copy_Fill_result:
  "fst (Texture_Copy_Fill L txt \<sigma>) =
     ret_int L \<sigma> (Call SDL_RenderCopy
       [P (Renderer.renderer (Texture.renderer txt)), P (texture txt), R None, R None])"
  by (simp add: Texture_Copy_Fill_def call_defs)

text \<open>
  C7, amended. A Surface stores the native handle and the boolean ownership flag and nothing
  else. A Window and a Renderer store, besides these two, an \<^verbatim>\<open>int\<close> field \<open>error\<close>, and a Texture
  stores the Renderer it draws with. Of the Renderer operations, FlushError writes \<open>error\<close> (0)
  and the \<^verbatim>\<open>error |= ...\<close> operations (SetScale, Clear, Flush and the ones that share their
  body) read and write it: the old value OR the native return code. Window's UpdateSurface and
  SetBrightness assign the native return code to \<open>error\<close>. Each leaves the handle and the
  ownership flag as they were. Texture's Copy_Fill reads the handle of the stored Renderer.
\<close>

theorem wrapper_state_and_its_writers:
  "(s :: Surface) = \<lparr>surface = surface s, freeSurface = freeSurface s\<rparr>
   \<and> (wnd :: Window) = \<lparr>window = window wnd, freeWindow = freeWindow wnd, error = Window.error wnd\<rparr>
   \<and> (r :: Renderer) =
       \<lparr>Renderer.renderer = Renderer.renderer r, freeRenderer = freeRenderer r, error = Renderer.error r\<rparr>
   \<and> (txt :: Texture) =
       \<lparr>Texture.renderer = Texture.renderer txt, texture = texture txt, freeTexture = freeTexture txt\<rparr>
   \<and> Renderer_FlushError r = r\<lparr>Renderer.error := 0\<rparr>
   \<and> fst (Renderer_SetScale_FPoint L r scale \<sigma>) =
       r\<lparr>Renderer.error := Renderer.error r OR
           ret_int L \<sigma> (Call SDL_RenderSetScale [P (Renderer.renderer r), F (fst scale), F (snd scale)])\<rparr>
   \<and> fst (Renderer_SetScale L r scaleX scaleY \<sigma>) =
       r\<lparr>Renderer.error := Renderer.error r OR
           ret_int L \<sigma> (Call SDL_RenderSetScale [P (Renderer.renderer r), F scaleX, F scaleY])\<rparr>
   \<and> fst (Renderer_Clear L r \<sigma>) =
       r\<lparr>Renderer.error := Renderer.error r OR
           ret_int L \<sigma> (Call SDL_RenderClear [P (Renderer.renderer r)])\<rparr>
   \<and> fst (Renderer_Flush L r \<sigma>) =
       r\<lparr>Renderer.error := Renderer.error r OR
           ret_int L \<sigma> (Call SDL_RenderFlush [P (Renderer.renderer r)])\<rparr>
   \<and> fst (Renderer_chained L r f as \<sigma>) =
       r\<lparr>Renderer.error := Renderer.error r OR ret_int L \<sigma> (Call f (P (Renderer.renderer r) # as))\<rparr>
   \<and> fst (Window_UpdateSurface L wnd \<sigma>) =
       wnd\<lparr>Window.error := ret_int L \<sigma> (Call SDL_UpdateWindowSurface [P (window wnd)])\<rparr>
   \<and> fst (Window_SetBrightness L wnd brightness \<sigma>) =
       wnd\<lparr>Window.error := ret_int L \<sigma> (Call SDL_SetWindowBrightness [P (window wnd), F brightness])\<rparr>
   \<and> fst (Texture_Copy_Fill L txt \<sigma>) =
       ret_int L \<sigma> (Call SDL_RenderCopy
         [P (Renderer.renderer (Texture.renderer txt)), P (texture txt), R None, R None])"
  by (intro conjI wrapper_fields chained_results FlushError_result Copy_Fill_result)

subsection \<open>What a method hands back to its caller\<close>

text \<open>
  C1, as the claim states it, fails for the method it cites, \<^verbatim>\<open>Renderer::SetScale\<close>: the method
  returns the Renderer, and the code reaches the caller only ORed into \<open>error\<close>. On a renderer
  whose \<open>error\<close> is already -1 a call that returns 0 leaves \<open>error\<close> at -1, and the caller
  receives the same object whether the library returned 0 or -1.
\<close>

theorem SetScale_does_not_return_the_code:
  "Renderer.error (fst (Renderer_SetScale (sdl_const 0 SDL_FALSE 1) r_failed 1 1 []))
      \<noteq> ret_int (sdl_const 0 SDL_FALSE 1) [] (Call SDL_RenderSetScale [P (Renderer.renderer r_failed), F 1, F 1])
   \<and> ret_int (sdl_const 0 SDL_FALSE 1) [] (Call SDL_RenderSetScale [P (Renderer.renderer r_failed), F 1, F 1])
      \<noteq> ret_int (sdl_const (- 1) SDL_FALSE 1) [] (Call SDL_RenderSetScale [P (Renderer.renderer r_failed), F 1, F 1])
   \<and> fst (Renderer_SetScale (sdl_const 0 SDL_FALSE 1) r_failed 1 1 [])
      = fst (Renderer_SetScale (sdl_const (- 1) SDL_FALSE 1) r_failed 1 1 [])"
  by (simp add: Renderer_SetScale_def call_defs sdl_const_def object_defs)

text \<open>What the methods that return the native result hand back.\<close>

lemma direct_results:
  "fst (Surface_SaveBMP_RW L s dst freedst \<sigma>) =
     ret_int L \<sigma> (Call SDL_SaveBMP_RW [P (surface s), P dst, B freedst])"
  "fst (Surface_Lock L s \<sigma>) = ret_int L \<sigma> (Call SDL_LockSurface [P (surface s)])"
  "fst (Surface_SetRLE L s flag \<sigma>) = ret_int L \<sigma> (Call SDL_SetSurfaceRLE [P (surface s), I flag])"
  "fst (Surface_SetColorKey L s flag key \<sigma>) =
     ret_int L \<sigma> (Call SDL_SetColorKey [P (surface s), I flag, U key])"
  "fst (Surface_SetAlphaMod L s alpha \<sigma>) =
     ret_int L \<sigma> (Call SDL_SetSurfaceAlphaMod [P (surface s), U8 alpha])"
  "fst (Surface_HasColorKey L s \<sigma>) =
     bool_of_SDL_bool (ret_bool L \<sigma> (Call SDL_HasColorKey [P (surface s)]))"
  "fst (Window_SetOpacity L wnd opacity \<sigma>) =
     ret_int L \<sigma> (Call SDL_SetWindowOpacity [P (window wnd), F opacity])"
  "fst (Window_SetInputFocus L wnd \<sigma>) = ret_int L \<sigma> (Call SDL_SetWindowInputFocus [P (window wnd)])"
  "fst (Window_GetFlags L wnd \<sigma>) = ret_int L \<sigma> (Call SDL_GetWindowFlags [P (window wnd)])"
  "fst (Renderer_GetNumDrivers L \<sigma>) = ret_int L \<sigma> (Call SDL_GetNumRenderDrivers [])"
  "fst (Renderer_IsClipEnabled L r \<sigma>) =
     bool_of_SDL_bool (ret_bool L \<sigma> (Call SDL_RenderIsClipEnabled [P (Renderer.renderer r)]))"
  "fst (Texture_Copy L txt src dst' \<sigma>) =
     ret_int L \<sigma> (Call SDL_RenderCopy
       [P (Renderer.renderer (Texture.renderer txt)), P (texture txt), R (Some src), R (Some dst')])"
  "fst (Texture_Copy_Fill L txt \<sigma>) =
     ret_int L \<sigma> (Call SDL_RenderCopy
       [P (Renderer.renderer (Texture.renderer txt)), P (texture txt), R None, R None])"
  "fst (Texture_SetColorMod L txt cr cg cb \<sigma>) =
     ret_int L \<sigma> (Call SDL_SetTextureColorMod [P (texture txt), U8 cr, U8 cg, U8 cb])"
  "fst (Texture_SetAlphaMod L txt alpha \<sigma>) =
     ret_int L \<sigma> (Call SDL_SetTextureAlphaMod [P (texture txt), U8 alpha])"
  by (simp_all add: Surface_SaveBMP_RW_def Surface_Lock_def Surface_SetRLE_def Surface_SetColorKey_def
      Surface_SetAlphaMod_def Surface_HasColorKey_def Window_SetOpacity_def Window_SetInputFocus_def
      Window_GetFlags_def Renderer_GetNumDrivers_def Renderer_IsClipEnabled_def Texture_Copy_def
      Texture_Copy_Fill_def Texture_SetColorMod_def Texture_SetAlphaMod_def call_defs)

text \<open>What the methods that pack the native result into a wrapper type hand back.\<close>

lemma packed_results:
  "fst (Window_GetSurface L wnd \<sigma>) =
     \<lparr>surface = ret_ptr L \<sigma> (Call SDL_GetWindowSurface [P (window wnd)]), freeSurface = False\<rparr>"
  "fst (Window_GetSize L wnd \<sigma>) = out_ints L \<sigma> (Call SDL_GetWindowSize [P (window wnd)])"
  "fst (Renderer_GetScale L r \<sigma>) = out_floats L \<sigma> (Call SDL_RenderGetScale [P (Renderer.renderer r)])"
  by (simp_all add: Window_GetSurface_def Window_GetSize_def Renderer_GetScale_def Surface_ctor_def
      call_defs)

text \<open>A method that wraps a \<^verbatim>\<open>void\<close> native call makes the call and leaves its object as it was.\<close>

lemma void_calls:
  "Surface_Unlock s \<sigma> = \<sigma> @ [Call SDL_UnlockSurface [P (surface s)]]"
  "Texture_Unlock txt \<sigma> = \<sigma> @ [Call SDL_UnlockTexture [P (texture txt)]]"
  "Window_Show wnd \<sigma> = (wnd, \<sigma> @ [Call SDL_ShowWindow [P (window wnd)]])"
  "Renderer_Present r \<sigma> = (r, \<sigma> @ [Call SDL_RenderPresent [P (Renderer.renderer r)]])"
  by (simp_all add: Surface_Unlock_def Texture_Unlock_def Window_Show_def Renderer_Present_def
      call_defs)

text \<open>\<^verbatim>\<open>Window::SetFullscreen\<close> is documented with \<^verbatim>\<open>error is set to 0 on success, or -1 if setting\<close>
  \<^verbatim>\<open>the display mode failed\<close>; its body calls the library and drops the code.\<close>

lemma SetFullscreen_drops_the_code:
  "Window_SetFullscreen L wnd flags \<sigma> =
     (wnd, \<sigma> @ [Call SDL_SetWindowFullscreen [P (window wnd), U flags]])"
  by (simp add: Window_SetFullscreen_def call_defs)

text \<open>What a method with the body \<^verbatim>\<open>return SDL_f(args...);\<close> hands back, whatever the function and
  the arguments.\<close>

lemma returned_results:
  "fst (returns_result L f as \<sigma>) = ret_int L \<sigma> (Call f as)"
  "fst (returns_bool L f as \<sigma>) = bool_of_SDL_bool (ret_bool L \<sigma> (Call f as))"
  "fst (returns_pointer L f as \<sigma>) = ret_ptr L \<sigma> (Call f as)"
  by (simp_all add: returns_result_def returns_bool_def returns_pointer_def call_defs)

text \<open>The methods modelled one by one have that body.\<close>

lemma modelled_methods_return_the_call:
  "Surface_SaveBMP_RW L s dst freedst \<sigma> =
     returns_result L SDL_SaveBMP_RW [P (surface s), P dst, B freedst] \<sigma>"
  "Surface_Lock L s \<sigma> = returns_result L SDL_LockSurface [P (surface s)] \<sigma>"
  "Surface_SetRLE L s flag \<sigma> = returns_result L SDL_SetSurfaceRLE [P (surface s), I flag] \<sigma>"
  "Surface_SetColorKey L s flag key \<sigma> =
     returns_result L SDL_SetColorKey [P (surface s), I flag, U key] \<sigma>"
  "Surface_SetAlphaMod L s alpha \<sigma> = returns_result L SDL_SetSurfaceAlphaMod [P (surface s), U8 alpha] \<sigma>"
  "Surface_HasColorKey L s \<sigma> = returns_bool L SDL_HasColorKey [P (surface s)] \<sigma>"
  "Window_SetOpacity L wnd opacity \<sigma> = returns_result L SDL_SetWindowOpacity [P (window wnd), F opacity] \<sigma>"
  "Window_SetInputFocus L wnd \<sigma> = returns_result L SDL_SetWindowInputFocus [P (window wnd)] \<sigma>"
  "Window_GetFlags L wnd \<sigma> = returns_result L SDL_GetWindowFlags [P (window wnd)] \<sigma>"
  "Renderer_GetNumDrivers L \<sigma> = returns_result L SDL_GetNumRenderDrivers [] \<sigma>"
  "Renderer_TargetSupported L r \<sigma> = returns_bool L SDL_RenderTargetSupported [P (Renderer.renderer r)] \<sigma>"
  "Renderer_GetIntegerScale L r \<sigma> = returns_bool L SDL_RenderGetIntegerScale [P (Renderer.renderer r)] \<sigma>"
  "Renderer_IsClipEnabled L r \<sigma> = returns_bool L SDL_RenderIsClipEnabled [P (Renderer.renderer r)] \<sigma>"
  "Texture_Copy L txt src dst' \<sigma> =
     returns_result L SDL_RenderCopy
       [P (Renderer.renderer (Texture.renderer txt)), P (texture txt), R (Some src), R (Some dst')] \<sigma>"
  "Texture_Copy_Fill L txt \<sigma> =
     returns_result L SDL_RenderCopy
       [P (Renderer.renderer (Texture.renderer txt)), P (texture txt), R None, R None] \<sigma>"
  "Texture_SetColorMod L txt cr cg cb \<sigma> =
     returns_result L SDL_SetTextureColorMod [P (texture txt), U8 cr, U8 cg, U8 cb] \<sigma>"
  "Texture_SetAlphaMod L txt alpha \<sigma> = returns_result L SDL_SetTextureAlphaMod [P (texture txt), U8 alpha] \<sigma>"
  "Texture_GetColorMod L txt \<sigma> = returns_result L SDL_GetTextureColorMod [P (texture txt)] \<sigma>"
  "Texture_GetAlphaMod L txt \<sigma> = returns_result L SDL_GetTextureAlphaMod [P (texture txt)] \<sigma>"
  by (simp_all add: returns_result_def returns_bool_def Surface_SaveBMP_RW_def Surface_Lock_def
      Surface_SetRLE_def Surface_SetColorKey_def Surface_SetAlphaMod_def Surface_HasColorKey_def
      Window_SetOpacity_def Window_SetInputFocus_def Window_GetFlags_def Renderer_GetNumDrivers_def
      Renderer_TargetSupported_def Renderer_GetIntegerScale_def Renderer_IsClipEnabled_def
      Texture_Copy_def Texture_Copy_Fill_def Texture_SetColorMod_def Texture_SetAlphaMod_def
      Texture_GetColorMod_def Texture_GetAlphaMod_def)

text \<open>The other results: the wrapper \<^verbatim>\<open>GL::GetCurrentWindow\<close> packs the handle into, the remaining
  chaining bodies, and the two methods of Texture that combine two calls.\<close>

lemma other_results:
  "fst (GL_GetCurrentWindow L e \<sigma>) =
     \<lparr>window = ret_ptr L \<sigma> (Call SDL_GL_GetCurrentWindow []), freeWindow = False, error = e\<rparr>"
  "fst (Renderer_GetDriverInfo L r index \<sigma>) =
     r\<lparr>Renderer.error := Renderer.error r OR ret_int L \<sigma> (Call SDL_GetRenderDriverInfo [I index])\<rparr>"
  "fst (Window_assigned L wnd f as \<sigma>) =
     wnd\<lparr>Window.error := ret_int L \<sigma> (Call f (P (window wnd) # as))\<rparr>"
  "fst (Texture_GetMod L True txt \<sigma>) =
     ret_int L \<sigma> (Call SDL_GetTextureColorMod [P (texture txt)]) OR
     ret_int L (\<sigma> @ [Call SDL_GetTextureColorMod [P (texture txt)]])
       (Call SDL_GetTextureAlphaMod [P (texture txt)])"
  "fst (Texture_GetMod L False txt \<sigma>) =
     ret_int L (\<sigma> @ [Call SDL_GetTextureAlphaMod [P (texture txt)]])
       (Call SDL_GetTextureColorMod [P (texture txt)]) OR
     ret_int L \<sigma> (Call SDL_GetTextureAlphaMod [P (texture txt)])"
  "fst (Texture_SetMod L txt (cr, cg, cb, ca) \<sigma>) =
     (ret_int L \<sigma> (Call SDL_SetTextureColorMod [P (texture txt), U8 cr, U8 cg, U8 cb]),
      ret_int L (\<sigma> @ [Call SDL_SetTextureColorMod [P (texture txt), U8 cr, U8 cg, U8 cb]])
        (Call SDL_SetTextureAlphaMod [P (texture txt), U8 ca]))"
  by (simp_all add: GL_GetCurrentWindow_def Window_ctor_def Renderer_GetDriverInfo_def
      Window_assigned_def Texture_GetMod_def Texture_SetMod_def Texture_GetColorMod_def
      Texture_GetAlphaMod_def Texture_SetColorMod_def Texture_SetAlphaMod_def call_defs)

text \<open>
  C1, amended. A public method whose body is a single \<^verbatim>\<open>return SDL_f(args...);\<close> hands its caller
  the result of that call: unchanged when the return type of the method is that of the call (an
  \<^verbatim>\<open>int\<close>, \<^verbatim>\<open>Uint32\<close>, \<^verbatim>\<open>float\<close>, enumeration or pointer), converted to \<^verbatim>\<open>bool\<close> when the call returns an
  \<^verbatim>\<open>SDL_bool\<close>, and packed into a non-owning wrapper by \<^verbatim>\<open>Window::GetSurface()\<close> and
  \<^verbatim>\<open>GL::GetCurrentWindow()\<close>. \<^verbatim>\<open>Window::GetSize()\<close> and \<^verbatim>\<open>Renderer::GetScale()\<close> return the values the
  call stored. A chaining method returns its object instead of the code: a Renderer method whose
  body is \<^verbatim>\<open>error |= SDL_f(...); return *this;\<close> with an \<^verbatim>\<open>int\<close> code returns the Renderer with the
  code ORed into \<open>error\<close>, and a Window method whose body is
  \<^verbatim>\<open>error = SDL_f(window, ...); return *this;\<close> returns the Window with the code assigned to
  \<open>error\<close>. \<^verbatim>\<open>Texture::GetMod\<close> returns the bitwise OR of the codes of its two calls, in either order
  of the calls, and \<^verbatim>\<open>Texture::SetMod\<close> the pair of the codes of its two calls.
\<close>

theorem pass_through_results:
  "fst (returns_result L f as \<sigma>) = ret_int L \<sigma> (Call f as)
   \<and> fst (returns_bool L f as \<sigma>) = bool_of_SDL_bool (ret_bool L \<sigma> (Call f as))
   \<and> fst (returns_pointer L f as \<sigma>) = ret_ptr L \<sigma> (Call f as)
   \<and> fst (Surface_SaveBMP_RW L s dst freedst \<sigma>) =
       ret_int L \<sigma> (Call SDL_SaveBMP_RW [P (surface s), P dst, B freedst])
   \<and> fst (Surface_Lock L s \<sigma>) = ret_int L \<sigma> (Call SDL_LockSurface [P (surface s)])
   \<and> fst (Surface_SetRLE L s flag \<sigma>) = ret_int L \<sigma> (Call SDL_SetSurfaceRLE [P (surface s), I flag])
   \<and> fst (Surface_SetColorKey L s flag key \<sigma>) =
       ret_int L \<sigma> (Call SDL_SetColorKey [P (surface s), I flag, U key])
   \<and> fst (Surface_SetAlphaMod L s alpha \<sigma>) =
       ret_int L \<sigma> (Call SDL_SetSurfaceAlphaMod [P (surface s), U8 alpha])
   \<and> fst (Surface_HasColorKey L s \<sigma>) =
       bool_of_SDL_bool (ret_bool L \<sigma> (Call SDL_HasColorKey [P (surface s)]))
   \<and> fst (Window_SetOpacity L wnd opacity \<sigma>) =
       ret_int L \<sigma> (Call SDL_SetWindowOpacity [P (window wnd), F opacity])
   \<and> fst (Window_SetInputFocus L wnd \<sigma>) = ret_int L \<sigma> (Call SDL_SetWindowInputFocus [P (window wnd)])
   \<and> fst (Window_GetFlags L wnd \<sigma>) = ret_int L \<sigma> (Call SDL_GetWindowFlags [P (window wnd)])
   \<and> fst (Renderer_GetNumDrivers L \<sigma>) = ret_int L \<sigma> (Call SDL_GetNumRenderDrivers [])
   \<and> fst (Renderer_IsClipEnabled L r \<sigma>) =
       bool_of_SDL_bool (ret_bool L \<sigma> (Call SDL_RenderIsClipEnabled [P (Renderer.renderer r)]))
   \<and> fst (Texture_Copy L txt src dst' \<sigma>) =
       ret_int L \<sigma> (Call SDL_RenderCopy
       [P (Renderer.renderer (Texture.renderer txt)), P (texture txt), R (Some src), R (Some dst')])
   \<and> fst (Texture_Copy_Fill L txt \<sigma>) =
       ret_int L \<sigma> (Call SDL_RenderCopy
       [P (Renderer.renderer (Texture.renderer txt)), P (texture txt), R None, R None])
   \<and> fst (Texture_SetColorMod L txt cr cg cb \<sigma>) =
       ret_int L \<sigma> (Call SDL_SetTextureColorMod [P (texture txt), U8 cr, U8 cg, U8 cb])
   \<and> fst (Texture_SetAlphaMod L txt alpha \<sigma>) =
       ret_int L \<sigma> (Call SDL_SetTextureAlphaMod [P (texture txt), U8 alpha])
   \<and> fst (Window_GetSurface L wnd \<sigma>) =
       \<lparr>surface = ret_ptr L \<sigma> (Call SDL_GetWindowSurface [P (window wnd)]), freeSurface = False\<rparr>
   \<and> fst (Window_GetSize L wnd \<sigma>) = out_ints L \<sigma> (Call SDL_GetWindowSize [P (window wnd)])
   \<and> fst (Renderer_GetScale L r \<sigma>) = out_floats L \<sigma> (Call SDL_RenderGetScale [P (Renderer.renderer r)])
   \<and> fst (Renderer_SetScale_FPoint L r scale \<sigma>) =
       r\<lparr>Renderer.error := Renderer.error r OR
       ret_int L \<sigma> (Call SDL_RenderSetScale [P (Renderer.renderer r), F (fst scale), F (snd scale)])\<rparr>
   \<and> fst (Renderer_SetScale L r scaleX scaleY \<sigma>) =
       r\<lparr>Renderer.error := Renderer.error r OR
       ret_int L \<sigma> (Call SDL_RenderSetScale [P (Renderer.renderer r), F scaleX, F scaleY])\<rparr>
   \<and> fst (Renderer_Clear L r \<sigma>) =
       r\<lparr>Renderer.error := Renderer.error r OR
       ret_int L \<sigma> (Call SDL_RenderClear [P (Renderer.renderer r)])\<rparr>
   \<and> fst (Renderer_Flush L r \<sigma>) =
       r\<lparr>Renderer.error := Renderer.error r OR
       ret_int L \<sigma> (Call SDL_RenderFlush [P (Renderer.renderer r)])\<rparr>
   \<and> fst (Renderer_chained L r f as \<sigma>) =
       r\<lparr>Renderer.error := Renderer.error r OR ret_int L \<sigma> (Call f (P (Renderer.renderer r) # as))\<rparr>
   \<and> fst (Window_UpdateSurface L wnd \<sigma>) =
       wnd\<lparr>Window.error := ret_int L \<sigma> (Call SDL_UpdateWindowSurface [P (window wnd)])\<rparr>
   \<and> fst (Window_SetBrightness L wnd brightness \<sigma>) =
       wnd\<lparr>Window.error := ret_int L \<sigma> (Call SDL_SetWindowBrightness [P (window wnd), F brightness])\<rparr>
   \<and> fst (GL_GetCurrentWindow L e \<sigma>) =
       \<lparr>window = ret_ptr L \<sigma> (Call SDL_GL_GetCurrentWindow []), freeWindow = False, error = e\<rparr>
   \<and> fst (Renderer_GetDriverInfo L r index \<sigma>) =
       r\<lparr>Renderer.error := Renderer.error r OR ret_int L \<sigma> (Call SDL_GetRenderDriverInfo [I index])\<rparr>
   \<and> fst (Window_assigned L wnd f as \<sigma>) =
       wnd\<lparr>Window.error := ret_int L \<sigma> (Call f (P (window wnd) # as))\<rparr>
   \<and> fst (Texture_GetMod L True txt \<sigma>) =
       ret_int L \<sigma> (Call SDL_GetTextureColorMod [P (texture txt)]) OR
       ret_int L (\<sigma> @ [Call SDL_GetTextureColorMod [P (texture txt)]])
       (Call SDL_GetTextureAlphaMod [P (texture txt)])
   \<and> fst (Texture_GetMod L False txt \<sigma>) =
       ret_int L (\<sigma> @ [Call SDL_GetTextureAlphaMod [P (texture txt)]])
       (Call SDL_GetTextureColorMod [P (texture txt)]) OR
       ret_int L \<sigma> (Call SDL_GetTextureAlphaMod [P (texture txt)])
   \<and> fst (Texture_SetMod L txt (cr, cg, cb, ca) \<sigma>) =
       (ret_int L \<sigma> (Call SDL_SetTextureColorMod [P (texture txt), U8 cr, U8 cg, U8 cb]),
       ret_int L (\<sigma> @ [Call SDL_SetTextureColorMod [P (texture txt), U8 cr, U8 cg, U8 cb]])
       (Call SDL_SetTextureAlphaMod [P (texture txt), U8 ca]))"
  by (intro conjI returned_results direct_results packed_results chained_results other_results)

end
